theory Spec2Isabelle
  imports Main
begin

section \<open>The real-time chat layer of server/routes.ts\<close>

text \<open>
  The development embeds the WebSocket part of \<^verbatim>\<open>registerRoutes\<close> (server/routes.ts),
  the three storage methods it calls (\<^verbatim>\<open>DatabaseStorage.getChat\<close>,
  \<^verbatim>\<open>createMessage\<close>, \<^verbatim>\<open>updateChatLastMessage\<close>), the tables they touch
  (shared schema) and \<^verbatim>\<open>verifyRefreshToken\<close> (middleware/auth).

  What lies outside the repository is an input of the model:
  \<^item> \<^verbatim>\<open>JSON.parse\<close>: a frame arrives as \<open>None\<close> (SyntaxError thrown) or as the parsed value;
  \<^item> \<^verbatim>\<open>jwt.verify\<close>: a function of token, secret and clock, \<open>Thrown\<close> when it throws;
  \<^item> the database server and the clocks: one \<open>env\<close> per handler run gives the values the
    run reads (\<^verbatim>\<open>now()\<close>, \<^verbatim>\<open>gen_random_uuid()\<close>, \<^verbatim>\<open>new Date()\<close>) and says which
    round trips fail;
  \<^item> the ws library: readyState of each socket; \<^verbatim>\<open>close()\<close> begins the closing handshake;
    \<^verbatim>\<open>send()\<close> returns without throwing, also on a socket that is no longer open.

  A handler run is taken as one step: the \<^verbatim>\<open>await\<close>s of the chat branch are the three
  storage calls, and no other handler is interleaved between them here.
\<close>

subsection \<open>JavaScript values\<close>

type_synonym time = nat
type_synonym conn_id = nat

datatype js =
    Undefined
  | Null
  | JBool bool
  | JNum int
  | JStr string
  | JArr "js list"
  | JObj "(string \<times> js) list"

text \<open>Numbers are never inspected by the handler; \<open>JNum\<close> only keeps them apart.\<close>

datatype 'a result = Thrown | Returned 'a

text \<open>
  \<^verbatim>\<open>message.type\<close>: reading a property of \<^verbatim>\<open>null\<close> throws a TypeError; an object
  gives the member (the last one of a repeated key, as \<^verbatim>\<open>JSON.parse\<close> keeps it) or
  \<^verbatim>\<open>undefined\<close>; the other values have none of the properties read here.
\<close>

fun get_prop :: "js \<Rightarrow> string \<Rightarrow> js result" where
  "get_prop Null k = Thrown"
| "get_prop Undefined k = Thrown"
| "get_prop (JObj kvs) k = Returned (case map_of (rev kvs) k of None \<Rightarrow> Undefined | Some v \<Rightarrow> v)"
| "get_prop v k = Returned Undefined"

text \<open>The same read where the value is known not to be \<^verbatim>\<open>null\<close> (after \<^verbatim>\<open>message.type\<close>).\<close>

definition get_member :: "js \<Rightarrow> string \<Rightarrow> js" where
  "get_member v k = (case get_prop v k of Thrown \<Rightarrow> Undefined | Returned x \<Rightarrow> x)"

subsection \<open>Tables (shared schema)\<close>

record Chat =
  buyerId :: string
  sellerId :: string
  listingId :: string
  lastMessageAt :: "time option"
  chat_createdAt :: time

record Message =
  msg_id :: string
  chatId :: string
  senderId :: string
  message :: string
  isRead :: bool
  createdAt :: time

record AuthToken =
  token_userId :: string
  refreshToken :: string
  expiresAt :: time

record User =
  email :: string
  user_role :: string
  isActive :: bool

text \<open>\<open>chats\<close> and \<open>users\<close> are keyed by their primary key \<^verbatim>\<open>id\<close>.\<close>

record database =
  chats :: "string \<rightharpoonup> Chat"
  messages :: "Message list"
  authTokens :: "AuthToken list"
  users :: "string \<rightharpoonup> User"

subsection \<open>The environment of one handler run\<close>

record env =
  js_now :: time
  db_now :: time
  db_uuid :: string
  getChat_ok :: bool
  createMessage_ok :: bool
  updateChat_ok :: bool

text \<open>
  \<open>js_now\<close> is what \<^verbatim>\<open>new Date()\<close> and \<^verbatim>\<open>jwt.verify\<close> read in the Node process,
  \<open>db_now\<close> and \<open>db_uuid\<close> what the column defaults \<^verbatim>\<open>defaultNow()\<close> and
  \<^verbatim>\<open>gen_random_uuid()\<close> give at the INSERT. A flag \<open>_ok\<close> is False when that round
  trip to the database fails for a reason outside the tables modelled here (the connection
  is lost, the statement times out): the storage method then throws.
\<close>

record JWTPayload =
  payload_userId :: string
  payload_role :: string

record ext =
  jwt_verify :: "string \<Rightarrow> string \<Rightarrow> time \<Rightarrow> JWTPayload result"
  env_JWT_REFRESH_SECRET :: "string option"
  pg_text :: "js \<Rightarrow> string option"

text \<open>
  \<open>jwt_verify token secret now\<close> is \<^verbatim>\<open>jwt.verify(token, secret)\<close>: it returns the
  decoded payload or throws. \<open>pg_text\<close> is how the database driver renders a
  query parameter that is neither a string nor null (\<open>None\<close> is SQL NULL).
\<close>

definition JWT_REFRESH_SECRET :: "ext \<Rightarrow> string" where
  "JWT_REFRESH_SECRET x =
     (case env_JWT_REFRESH_SECRET x of
        None \<Rightarrow> ''your-refresh-secret-key''
      | Some v \<Rightarrow> if v = [] then ''your-refresh-secret-key'' else v)"

text \<open>
  \<^verbatim>\<open>verifyRefreshToken\<close>: \<^verbatim>\<open>try { return jwt.verify(token, JWT_REFRESH_SECRET) } catch
  { return null }\<close>. \<^verbatim>\<open>jwt.verify\<close> throws on a token that is not a string.
\<close>

definition verifyRefreshToken :: "ext \<Rightarrow> env \<Rightarrow> js \<Rightarrow> JWTPayload option" where
  "verifyRefreshToken x e token =
     (case token of
        JStr t \<Rightarrow>
          (case jwt_verify x t (JWT_REFRESH_SECRET x) (js_now e) of
             Thrown \<Rightarrow> None
           | Returned payload \<Rightarrow> Some payload)
      | _ \<Rightarrow> None)"

subsection \<open>Storage methods\<close>

definition sql_param :: "ext \<Rightarrow> js \<Rightarrow> string option" where
  "sql_param x v =
     (case v of
        JStr s \<Rightarrow> Some s
      | Undefined \<Rightarrow> None
      | Null \<Rightarrow> None
      | _ \<Rightarrow> pg_text x v)"

text \<open>\<^verbatim>\<open>getChat\<close>: the row of \<open>chats\<close> whose id equals the parameter, if any.\<close>

definition getChat :: "ext \<Rightarrow> env \<Rightarrow> database \<Rightarrow> js \<Rightarrow> Chat option result" where
  "getChat x e d i =
     (if \<not> getChat_ok e then Thrown
      else Returned (case sql_param x i of None \<Rightarrow> None | Some k \<Rightarrow> chats d k))"

text \<open>
  \<^verbatim>\<open>createMessage\<close>: one INSERT into \<open>messages\<close>, returning the row. The columns
  \<^verbatim>\<open>chat_id\<close> and \<^verbatim>\<open>message\<close> are NOT NULL, \<^verbatim>\<open>chat_id\<close> references \<open>chats\<close> and
  \<^verbatim>\<open>sender_id\<close> references \<open>users\<close>; \<^verbatim>\<open>id\<close>, \<^verbatim>\<open>is_read\<close> and \<^verbatim>\<open>created_at\<close>
  take their defaults.
\<close>

definition createMessage ::
  "ext \<Rightarrow> env \<Rightarrow> database \<Rightarrow> js \<Rightarrow> string \<Rightarrow> js \<Rightarrow> (Message \<times> database) result" where
  "createMessage x e d cid sender content =
     (if \<not> createMessage_ok e then Thrown
      else
        (case sql_param x cid of
           None \<Rightarrow> Thrown
         | Some k \<Rightarrow>
             (case sql_param x content of
                None \<Rightarrow> Thrown
              | Some t \<Rightarrow>
                  if chats d k = None \<or> users d sender = None then Thrown
                  else
                    (let m = \<lparr>msg_id = db_uuid e, chatId = k, senderId = sender,
                              message = t, isRead = False, createdAt = db_now e\<rparr>
                     in Returned (m, d\<lparr>messages := messages d @ [m]\<rparr>)))))"

text \<open>
  \<^verbatim>\<open>updateChatLastMessage\<close>: \<^verbatim>\<open>update chats set lastMessageAt = new Date() where
  id = chatId\<close>.
\<close>

definition updateChatLastMessage :: "ext \<Rightarrow> env \<Rightarrow> database \<Rightarrow> js \<Rightarrow> database result" where
  "updateChatLastMessage x e d cid =
     (if \<not> updateChat_ok e then Thrown
      else
        Returned
          (case sql_param x cid of
             None \<Rightarrow> d
           | Some k \<Rightarrow>
               (case chats d k of
                  None \<Rightarrow> d
                | Some c \<Rightarrow> d\<lparr>chats := (chats d)(k \<mapsto> c\<lparr>lastMessageAt := Some (js_now e)\<rparr>)\<rparr>)))"

subsection \<open>Sockets, registry and server state\<close>

datatype ready_state = CONNECTING | OPEN | CLOSING | CLOSED

text \<open>
  One \<open>socket\<close> per accepted connection: the ws object's readyState and the variable
  \<^verbatim>\<open>let userId: string | null = null\<close> of the connection's closure.
\<close>

record socket =
  readyState :: ready_state
  userId :: "string option"

record ChatConnection =
  conn_userId :: string
  ws :: conn_id

record server =
  connections :: "string \<rightharpoonup> ChatConnection"
  sockets :: "conn_id \<rightharpoonup> socket"
  db :: database

datatype frame =
    AuthStatus bool
  | NewMessage Message js
  | MessageSent Message
  | ErrorFrame string

text \<open>
  What a handler run does, in program order: rows written, calls of \<^verbatim>\<open>ws.send\<close> and
  \<^verbatim>\<open>ws.close\<close>, \<^verbatim>\<open>console.error\<close>.
\<close>

datatype effect =
    Persisted Message
  | Touched js time
  | Sent conn_id frame
  | CloseCalled conn_id
  | Logged

definition userId_of :: "server \<Rightarrow> conn_id \<Rightarrow> string option" where
  "userId_of s c = (case sockets s c of None \<Rightarrow> None | Some k \<Rightarrow> userId k)"

definition readyState_of :: "server \<Rightarrow> conn_id \<Rightarrow> ready_state" where
  "readyState_of s c = (case sockets s c of None \<Rightarrow> CLOSED | Some k \<Rightarrow> readyState k)"

definition set_userId :: "conn_id \<Rightarrow> string \<Rightarrow> server \<Rightarrow> server" where
  "set_userId c u s =
     (case sockets s c of
        None \<Rightarrow> s
      | Some k \<Rightarrow> s\<lparr>sockets := (sockets s)(c \<mapsto> k\<lparr>userId := Some u\<rparr>)\<rparr>)"

text \<open>\<^verbatim>\<open>ws.close()\<close>: an open socket starts closing; otherwise nothing changes.\<close>

definition ws_close :: "conn_id \<Rightarrow> server \<Rightarrow> server" where
  "ws_close c s =
     (case sockets s c of
        None \<Rightarrow> s
      | Some k \<Rightarrow>
          if readyState k = OPEN then s\<lparr>sockets := (sockets s)(c \<mapsto> k\<lparr>readyState := CLOSING\<rparr>)\<rparr>
          else s)"

subsection \<open>The message handler\<close>

text \<open>The \<^verbatim>\<open>catch\<close> block of the handler.\<close>

definition catch_block :: "conn_id \<Rightarrow> effect list" where
  "catch_block c = [Logged, Sent c (ErrorFrame ''Invalid message format'')]"

text \<open>\<^verbatim>\<open>if (message.type === 'auth') { ... }\<close>\<close>

definition auth_branch :: "ext \<Rightarrow> env \<Rightarrow> server \<Rightarrow> conn_id \<Rightarrow> js \<Rightarrow> server \<times> effect list" where
  "auth_branch x e s c msg =
     (case verifyRefreshToken x e (get_member msg ''token'') of
        Some payload \<Rightarrow>
          (let u = payload_userId payload in
           (set_userId c u
              (s\<lparr>connections := (connections s)(u \<mapsto> \<lparr>conn_userId = u, ws = c\<rparr>)\<rparr>),
            [Sent c (AuthStatus True)]))
      | None \<Rightarrow> (ws_close c s, [Sent c (AuthStatus False), CloseCalled c]))"

text \<open>
  The body of \<^verbatim>\<open>if (message.type === 'chat_message' && userId) { ... }\<close>, with \<open>u\<close> the
  value of \<^verbatim>\<open>userId\<close>. A storage call that throws leaves the \<^verbatim>\<open>try\<close> for the
  \<^verbatim>\<open>catch\<close> block.
\<close>

definition chat_branch ::
  "ext \<Rightarrow> env \<Rightarrow> server \<Rightarrow> conn_id \<Rightarrow> string \<Rightarrow> js \<Rightarrow> server \<times> effect list" where
  "chat_branch x e s c u msg =
     (let cid = get_member msg ''chatId''; content = get_member msg ''content'' in
      case getChat x e (db s) cid of
        Thrown \<Rightarrow> (s, catch_block c)
      | Returned None \<Rightarrow> (s, [])
      | Returned (Some chat) \<Rightarrow>
          if buyerId chat = u \<or> sellerId chat = u then
            (case createMessage x e (db s) cid u content of
               Thrown \<Rightarrow> (s, catch_block c)
             | Returned (newMessage, d1) \<Rightarrow>
                 (case updateChatLastMessage x e d1 cid of
                    Thrown \<Rightarrow> (s\<lparr>db := d1\<rparr>, Persisted newMessage # catch_block c)
                  | Returned d2 \<Rightarrow>
                      (let otherUserId = (if buyerId chat = u then sellerId chat else buyerId chat);
                           forward =
                             (case connections s otherUserId of
                                None \<Rightarrow> []
                              | Some oc \<Rightarrow>
                                  if readyState_of s (ws oc) = OPEN
                                  then [Sent (ws oc) (NewMessage newMessage cid)]
                                  else [])
                       in (s\<lparr>db := d2\<rparr>,
                           [Persisted newMessage, Touched cid (js_now e)] @ forward @
                           [Sent c (MessageSent newMessage)]))))
          else (s, []))"

text \<open>
  \<^verbatim>\<open>ws.on('message', ...)\<close> of connection \<open>c\<close>; \<open>data\<close> is the outcome of
  \<^verbatim>\<open>JSON.parse(data.toString())\<close>. The two \<^verbatim>\<open>if\<close>s run one after the other; the
  second reads \<^verbatim>\<open>userId\<close> as the first left it.
\<close>

definition on_message :: "ext \<Rightarrow> env \<Rightarrow> server \<Rightarrow> conn_id \<Rightarrow> js option \<Rightarrow> server \<times> effect list" where
  "on_message x e s c data =
     (case data of
        None \<Rightarrow> (s, catch_block c)
      | Some msg \<Rightarrow>
          (case get_prop msg ''type'' of
             Thrown \<Rightarrow> (s, catch_block c)
           | Returned ty \<Rightarrow>
               (let (s1, t1) = (if ty = JStr ''auth'' then auth_branch x e s c msg else (s, []));
                    (s2, t2) =
                      (if ty = JStr ''chat_message'' then
                         (case userId_of s1 c of
                            None \<Rightarrow> (s1, [])
                          | Some u \<Rightarrow> if u = [] then (s1, []) else chat_branch x e s1 c u msg)
                       else (s1, []))
                in (s2, t1 @ t2))))"

text \<open>\<^verbatim>\<open>ws.on('close', ...)\<close>: the socket is closed; \<^verbatim>\<open>if (userId) connections.delete(userId)\<close>.\<close>

definition on_close :: "server \<Rightarrow> conn_id \<Rightarrow> server" where
  "on_close s c =
     (case sockets s c of
        None \<Rightarrow> s
      | Some k \<Rightarrow>
          (let s1 = s\<lparr>sockets := (sockets s)(c \<mapsto> k\<lparr>readyState := CLOSED\<rparr>)\<rparr> in
           case userId k of
             None \<Rightarrow> s1
           | Some u \<Rightarrow> if u = [] then s1 else s1\<lparr>connections := (connections s1)(u := None)\<rparr>))"

text \<open>\<^verbatim>\<open>wss.on('connection', ...)\<close>: a new open socket with \<^verbatim>\<open>userId = null\<close>.\<close>

definition on_connection :: "server \<Rightarrow> conn_id \<Rightarrow> server" where
  "on_connection s c = s\<lparr>sockets := (sockets s)(c \<mapsto> \<lparr>readyState = OPEN, userId = None\<rparr>)\<rparr>"

subsection \<open>The server as a transition system\<close>

text \<open>
  The ws library raises three events. It raises \<^verbatim>\<open>connection\<close> once per new socket, and
  \<^verbatim>\<open>message\<close> and \<^verbatim>\<open>close\<close> only for a socket that exists and has not been closed;
  \<^verbatim>\<open>message\<close> is still raised for frames that arrive while the socket is closing. An
  event the library cannot raise leaves the state alone.
\<close>

datatype event =
    Connection conn_id
  | Frame conn_id "js option" env
  | Close conn_id

fun step :: "ext \<Rightarrow> server \<Rightarrow> event \<Rightarrow> server \<times> effect list" where
  "step x s (Connection c) = (if sockets s c = None then (on_connection s c, []) else (s, []))"
| "step x s (Frame c data e) =
     (if readyState_of s c = CLOSED then (s, []) else on_message x e s c data)"
| "step x s (Close c) = (if readyState_of s c = CLOSED then (s, []) else (on_close s c, []))"

fun run :: "ext \<Rightarrow> server \<Rightarrow> event list \<Rightarrow> server \<times> effect list" where
  "run x s [] = (s, [])"
| "run x s (ev # evs) =
     (let (s1, t1) = step x s ev; (s2, t2) = run x s1 evs in (s2, t1 @ t2))"

definition init_server :: "database \<Rightarrow> server" where
  "init_server d = \<lparr>connections = Map.empty, sockets = Map.empty, db = d\<rparr>"

text \<open>
  An event rebinds when it is an auth frame that verifies and either carries an empty user
  id or arrives on a connection whose \<^verbatim>\<open>userId\<close> already holds another user id.
\<close>

fun rebinds :: "ext \<Rightarrow> server \<Rightarrow> event \<Rightarrow> bool" where
  "rebinds x s (Frame c (Some msg) e) =
     (get_prop msg ''type'' = Returned (JStr ''auth'') \<and>
      (case verifyRefreshToken x e (get_member msg ''token'') of
         None \<Rightarrow> False
       | Some payload \<Rightarrow>
           payload_userId payload = [] \<or>
           (case userId_of s c of None \<Rightarrow> False | Some u \<Rightarrow> u \<noteq> payload_userId payload)))"
| "rebinds x s ev = False"

fun single_identity :: "ext \<Rightarrow> server \<Rightarrow> event list \<Rightarrow> bool" where
  "single_identity x s [] = True"
| "single_identity x s (ev # evs) =
     (\<not> rebinds x s ev \<and> single_identity x (fst (step x s ev)) evs)"

text \<open>
  An event is a successful authentication of connection \<open>c\<close> when it is an auth frame on
  \<open>c\<close> whose token verifies.
\<close>

fun auth_succeeds :: "ext \<Rightarrow> conn_id \<Rightarrow> event \<Rightarrow> bool" where
  "auth_succeeds x c (Frame c' (Some msg) e) =
     (c' = c \<and> get_prop msg ''type'' = Returned (JStr ''auth'') \<and>
      verifyRefreshToken x e (get_member msg ''token'') \<noteq> None)"
| "auth_succeeds x c ev = False"

subsection \<open>Frames of the client and a small marketplace\<close>

text \<open>The two frames client/src/pages/chat.tsx sends.\<close>

definition auth_frame :: "string \<Rightarrow> js" where
  "auth_frame t = JObj [(''type'', JStr ''auth''), (''token'', JStr t)]"

definition chat_message_frame :: "string \<Rightarrow> string \<Rightarrow> js" where
  "chat_message_frame cid body =
     JObj [(''type'', JStr ''chat_message''), (''chatId'', JStr cid), (''content'', JStr body)]"

text \<open>
  Buyer \<open>A\<close> and seller \<open>B\<close> share the conversation \<open>chat-1\<close>; \<open>tokA\<close> and \<open>tokB\<close> are
  their refresh tokens, signed with the default secret. In \<open>revoked_db\<close> the table
  \<open>auth_tokens\<close> is empty (every refresh token has been deleted by a logout), \<open>A\<close> is
  deactivated and \<open>B\<close> has no row.
\<close>

definition demo_ext :: ext where
  "demo_ext =
     \<lparr>jwt_verify =
        (\<lambda>t secret now.
           if secret \<noteq> ''your-refresh-secret-key'' then Thrown
           else if t = ''tokA'' then Returned \<lparr>payload_userId = ''A'', payload_role = ''buyer''\<rparr>
           else if t = ''tokB'' then Returned \<lparr>payload_userId = ''B'', payload_role = ''seller''\<rparr>
           else Thrown),
      env_JWT_REFRESH_SECRET = None,
      pg_text = (\<lambda>v. None)\<rparr>"

definition demo_env :: env where
  "demo_env =
     \<lparr>js_now = 105, db_now = 100, db_uuid = ''m1'',
      getChat_ok = True, createMessage_ok = True, updateChat_ok = True\<rparr>"

definition demo_chat :: Chat where
  "demo_chat =
     \<lparr>buyerId = ''A'', sellerId = ''B'', listingId = ''L'',
      lastMessageAt = None, chat_createdAt = 1\<rparr>"

definition demo_db :: database where
  "demo_db =
     \<lparr>chats = [''chat-1'' \<mapsto> demo_chat], messages = [],
      authTokens =
        [\<lparr>token_userId = ''A'', refreshToken = ''tokA'', expiresAt = 1000\<rparr>,
         \<lparr>token_userId = ''B'', refreshToken = ''tokB'', expiresAt = 1000\<rparr>],
      users =
        [''A'' \<mapsto> \<lparr>email = ''a@example.org'', user_role = ''buyer'', isActive = True\<rparr>,
         ''B'' \<mapsto> \<lparr>email = ''b@example.org'', user_role = ''seller'', isActive = True\<rparr>]\<rparr>"

definition revoked_db :: database where
  "revoked_db =
     \<lparr>chats = Map.empty, messages = [], authTokens = [],
      users = [''A'' \<mapsto> \<lparr>email = ''a@example.org'', user_role = ''buyer'', isActive = False\<rparr>]\<rparr>"

definition demo_message :: Message where
  "demo_message =
     \<lparr>msg_id = ''m1'', chatId = ''chat-1'', senderId = ''A'', message = ''hello'',
      isRead = False, createdAt = 100\<rparr>"

text \<open>Connection 1 is open and bound to \<open>A\<close>; nobody else is connected.\<close>

definition demo_server :: server where
  "demo_server =
     \<lparr>connections = [''A'' \<mapsto> \<lparr>conn_userId = ''A'', ws = 1\<rparr>],
      sockets = [1 \<mapsto> \<lparr>readyState = OPEN, userId = Some ''A''\<rparr>],
      db = demo_db\<rparr>"

text \<open>Connection 1 is open and has not authenticated.\<close>

definition fresh_server :: server where
  "fresh_server =
     \<lparr>connections = Map.empty,
      sockets = [1 \<mapsto> \<lparr>readyState = OPEN, userId = None\<rparr>],
      db = demo_db\<rparr>"

text \<open>The state and the effects of \<open>A\<close> sending \<open>hello\<close> into \<open>chat-1\<close> on connection 1.\<close>

definition demo_after :: server where
  "demo_after =
     demo_server\<lparr>db := demo_db\<lparr>messages := [demo_message],
                     chats := [''chat-1'' \<mapsto> demo_chat\<lparr>lastMessageAt := Some 105\<rparr>]\<rparr>\<rparr>"

definition demo_trace :: "effect list" where
  "demo_trace =
     [Persisted demo_message, Touched (JStr ''chat-1'') 105, Sent 1 (MessageSent demo_message)]"

definition demo_inserted :: database where
  "demo_inserted = demo_db\<lparr>messages := [demo_message]\<rparr>"

text \<open>Both participants are connected: \<open>A\<close> on connection 1, \<open>B\<close> on connection 2.\<close>

definition both_online :: server where
  "both_online =
     \<lparr>connections = [''A'' \<mapsto> \<lparr>conn_userId = ''A'', ws = 1\<rparr>, ''B'' \<mapsto> \<lparr>conn_userId = ''B'', ws = 2\<rparr>],
      sockets = [1 \<mapsto> \<lparr>readyState = OPEN, userId = Some ''A''\<rparr>,
                 2 \<mapsto> \<lparr>readyState = OPEN, userId = Some ''B''\<rparr>],
      db = demo_db\<rparr>"

subsection \<open>The registry invariant\<close>

text \<open>
  Every entry of the registry is filed under the user id it carries, the id is not empty,
  and the entry's socket exists, has not been closed and belongs to a connection whose
  \<^verbatim>\<open>userId\<close> is that id.
\<close>

definition registry_inv :: "server \<Rightarrow> bool" where
  "registry_inv s \<longleftrightarrow>
     (\<forall>u k. connections s u = Some k \<longrightarrow>
        conn_userId k = u \<and> u \<noteq> [] \<and>
        (\<exists>so. sockets s (ws k) = Some so \<and> userId so = Some u \<and> readyState so \<noteq> CLOSED))"

section \<open>Properties\<close>

subsection \<open>Unfolding\<close>

lemmas demo_defs = demo_ext_def demo_env_def demo_chat_def demo_db_def revoked_db_def
  demo_message_def
  demo_server_def fresh_server_def auth_frame_def chat_message_frame_def

lemmas storage_defs = getChat_def createMessage_def updateChatLastMessage_def sql_param_def

lemmas socket_defs = userId_of_def readyState_of_def set_userId_def ws_close_def

lemmas handler_defs = on_message_def auth_branch_def chat_branch_def catch_block_def
  verifyRefreshToken_def JWT_REFRESH_SECRET_def get_member_def on_close_def on_connection_def
  init_server_def

lemmas eval_defs = demo_defs demo_after_def demo_trace_def handler_defs storage_defs socket_defs
  Let_def

subsection \<open>What the chat branch leaves alone\<close>

lemma chat_branch_connections [simp]:
  "connections (fst (chat_branch x e s c u msg)) = connections s"
  by (simp add: chat_branch_def Let_def split: result.splits option.splits prod.splits)

lemma chat_branch_sockets [simp]:
  "sockets (fst (chat_branch x e s c u msg)) = sockets s"
  by (simp add: chat_branch_def Let_def split: result.splits option.splits prod.splits)

lemma createMessage_Returned:
  "createMessage x e d cid u content = Returned (m, d1) \<Longrightarrow>
     createMessage_ok e \<and> d1 = d\<lparr>messages := messages d @ [m]\<rparr> \<and> senderId m = u \<and>
     isRead m = False \<and> createdAt m = db_now e \<and> msg_id m = db_uuid e \<and>
     sql_param x cid = Some (chatId m) \<and> sql_param x content = Some (message m)"
  by (auto simp: createMessage_def Let_def split: if_splits option.splits)

lemma updateChatLastMessage_messages:
  "updateChatLastMessage x e d cid = Returned d2 \<Longrightarrow> messages d2 = messages d"
  by (auto simp: updateChatLastMessage_def split: if_splits option.splits)

text \<open>The four shapes of a run of the chat branch.\<close>

lemma chat_branch_shape:
  "(chat_branch x e s c u msg = (s, [])) \<or>
   (chat_branch x e s c u msg = (s, catch_block c)) \<or>
   (\<exists>m d1. createMessage x e (db s) (get_member msg ''chatId'') u (get_member msg ''content'')
              = Returned (m, d1) \<and>
      chat_branch x e s c u msg = (s\<lparr>db := d1\<rparr>, Persisted m # catch_block c)) \<or>
   (\<exists>m d1 d2 fwd.
      createMessage x e (db s) (get_member msg ''chatId'') u (get_member msg ''content'')
        = Returned (m, d1) \<and>
      updateChatLastMessage x e d1 (get_member msg ''chatId'') = Returned d2 \<and>
      (fwd = [] \<or> (\<exists>c'. fwd = [Sent c' (NewMessage m (get_member msg ''chatId''))] \<and>
                         readyState_of s c' = OPEN)) \<and>
      chat_branch x e s c u msg =
        (s\<lparr>db := d2\<rparr>,
         [Persisted m, Touched (get_member msg ''chatId'') (js_now e)] @ fwd @
         [Sent c (MessageSent m)]))"
  by (auto simp: chat_branch_def Let_def split: result.splits option.splits prod.splits)

lemma on_message_chat:
  assumes "get_prop msg ''type'' = Returned (JStr ''chat_message'')"
    and "userId_of s c = Some u" and "u \<noteq> []"
  shows "on_message x e s c (Some msg) = chat_branch x e s c u msg"
  using assms by (simp add: on_message_def)

lemma on_message_auth:
  assumes "get_prop msg ''type'' = Returned (JStr ''auth'')"
  shows "on_message x e s c (Some msg) = auth_branch x e s c msg"
  using assms by (simp add: on_message_def split: prod.splits)

lemma on_message_trace_cases:
  "snd (on_message x e s c data) = catch_block c \<or>
   snd (on_message x e s c data) = [] \<or>
   (\<exists>msg. data = Some msg \<and> snd (on_message x e s c data) = snd (auth_branch x e s c msg) \<and>
      fst (on_message x e s c data) = fst (auth_branch x e s c msg)) \<or>
   (\<exists>msg u. data = Some msg \<and> on_message x e s c data = chat_branch x e s c u msg)"
  by (cases data) (auto simp: on_message_def split: result.splits prod.splits option.splits)

lemma auth_branch_trace:
  "snd (auth_branch x e s c msg) = [Sent c (AuthStatus True)] \<or>
   snd (auth_branch x e s c msg) = [Sent c (AuthStatus False), CloseCalled c]"
  by (simp add: auth_branch_def Let_def split: option.splits)

lemma demo_relay:
  "on_message demo_ext demo_env demo_server 1 (Some (chat_message_frame ''chat-1'' ''hello'')) =
     (demo_after, demo_trace)"
  by (simp add: demo_defs demo_after_def demo_trace_def handler_defs storage_defs socket_defs Let_def)

subsection \<open>The demo relay, step by step\<close>

lemma demo_frame_type:
  "get_prop (chat_message_frame cid body) ''type'' = Returned (JStr ''chat_message'')"
  by (simp add: chat_message_frame_def)

lemma demo_frame_chatId: "get_member (chat_message_frame cid body) ''chatId'' = JStr cid"
  by (simp add: chat_message_frame_def get_member_def)

lemma demo_frame_content: "get_member (chat_message_frame cid body) ''content'' = JStr body"
  by (simp add: chat_message_frame_def get_member_def)

lemma demo_userId: "userId_of demo_server 1 = Some ''A''"
  by (simp add: demo_server_def userId_of_def)

lemma demo_getChat: "getChat demo_ext demo_env (db demo_server) (JStr ''chat-1'') = Returned (Some demo_chat)"
  by (simp add: demo_defs storage_defs)

lemma demo_createMessage:
  "createMessage demo_ext demo_env (db demo_server) (JStr ''chat-1'') ''A'' (JStr ''hello'') =
     Returned (demo_message, demo_inserted)"
  by (simp add: demo_defs demo_inserted_def storage_defs Let_def)

lemma demo_updateChat:
  "updateChatLastMessage demo_ext demo_env demo_inserted (JStr ''chat-1'') = Returned (db demo_after)"
  by (simp add: demo_defs demo_inserted_def demo_after_def storage_defs)

subsection \<open>Frames of the demo\<close>

lemma auth_frame_type: "get_prop (auth_frame t) ''type'' = Returned (JStr ''auth'')"
  by (simp add: auth_frame_def)

lemma auth_frame_token: "get_member (auth_frame t) ''token'' = JStr t"
  by (simp add: auth_frame_def get_member_def)

lemma demo_verify_tokA:
  "verifyRefreshToken demo_ext e (JStr ''tokA'') =
     Some \<lparr>payload_userId = ''A'', payload_role = ''buyer''\<rparr>"
  by (simp add: verifyRefreshToken_def JWT_REFRESH_SECRET_def demo_ext_def)

lemma demo_verify_tokB:
  "verifyRefreshToken demo_ext e (JStr ''tokB'') =
     Some \<lparr>payload_userId = ''B'', payload_role = ''seller''\<rparr>"
  by (simp add: verifyRefreshToken_def JWT_REFRESH_SECRET_def demo_ext_def)

lemma demo_verify_bad: "verifyRefreshToken demo_ext e (JStr ''bad'') = None"
  by (simp add: verifyRefreshToken_def JWT_REFRESH_SECRET_def demo_ext_def)

lemma both_online_relay:
  "snd (on_message demo_ext demo_env both_online 1 (Some (chat_message_frame ''chat-1'' ''hello''))) =
     [Persisted demo_message, Touched (JStr ''chat-1'') 105,
      Sent 2 (NewMessage demo_message (JStr ''chat-1'')), Sent 1 (MessageSent demo_message)]"
  by (simp add: eval_defs both_online_def)

subsection \<open>The invariant is kept while no connection takes a second identity\<close>

lemma registry_inv_init: "registry_inv (init_server d)"
  by (simp add: registry_inv_def init_server_def)

lemma registry_inv_on_connection:
  assumes "registry_inv s" and "sockets s c = None"
  shows "registry_inv (on_connection s c)"
  using assms unfolding registry_inv_def on_connection_def by fastforce

lemma registry_inv_on_close:
  assumes "registry_inv s"
  shows "registry_inv (on_close s c)"
proof (cases "sockets s c")
  case None
  with assms show ?thesis by (simp add: on_close_def)
next
  case (Some so)
  show ?thesis
    unfolding registry_inv_def
  proof (intro allI impI)
    fix u k
    assume entry: "connections (on_close s c) u = Some k"
    have sub: "connections s u = Some k"
      using entry Some by (auto simp: on_close_def Let_def split: option.splits if_splits)
    with assms obtain so' where k: "conn_userId k = u" "u \<noteq> []"
      "sockets s (ws k) = Some so'" "userId so' = Some u" "readyState so' \<noteq> CLOSED"
      unfolding registry_inv_def by blast
    have "ws k \<noteq> c"
    proof
      assume "ws k = c"
      with k Some have "userId so = Some u" by simp
      with Some k(2) have "connections (on_close s c) u = None"
        by (simp add: on_close_def Let_def)
      with entry show False by simp
    qed
    with k Some have "sockets (on_close s c) (ws k) = Some so'"
      by (simp add: on_close_def Let_def split: option.splits)
    with k show "conn_userId k = u \<and> u \<noteq> [] \<and>
        (\<exists>so. sockets (on_close s c) (ws k) = Some so \<and> userId so = Some u \<and>
              readyState so \<noteq> CLOSED)"
      by simp
  qed
qed

lemma registry_inv_auth_failed:
  assumes "registry_inv s"
  shows "registry_inv (ws_close c s)"
proof (cases "sockets s c")
  case None
  with assms show ?thesis by (simp add: ws_close_def)
next
  case (Some so)
  show ?thesis
  proof (cases "readyState so = OPEN")
    case False
    with Some assms show ?thesis by (simp add: ws_close_def)
  next
    case True
    with Some have conns: "connections (ws_close c s) = connections s"
      and socks: "sockets (ws_close c s) = (sockets s)(c \<mapsto> so\<lparr>readyState := CLOSING\<rparr>)"
      by (simp_all add: ws_close_def)
    show ?thesis
      unfolding registry_inv_def conns socks
      using assms Some unfolding registry_inv_def by fastforce
  qed
qed

lemma registry_inv_auth_ok:
  assumes inv: "registry_inv s"
    and so: "sockets s c = Some so" "readyState so \<noteq> CLOSED"
    and same: "userId so = None \<or> userId so = Some u"
    and u: "u \<noteq> []"
  shows "registry_inv
           (set_userId c u (s\<lparr>connections := (connections s)(u \<mapsto> \<lparr>conn_userId = u, ws = c\<rparr>)\<rparr>))"
  unfolding registry_inv_def
proof (intro allI impI)
  fix v k
  let ?s' = "set_userId c u (s\<lparr>connections := (connections s)(u \<mapsto> \<lparr>conn_userId = u, ws = c\<rparr>)\<rparr>)"
  assume entry: "connections ?s' v = Some k"
  have socks: "sockets ?s' = (sockets s)(c \<mapsto> so\<lparr>userId := Some u\<rparr>)"
    and conns: "connections ?s' = (connections s)(u \<mapsto> \<lparr>conn_userId = u, ws = c\<rparr>)"
    using so by (simp_all add: set_userId_def)
  show "conn_userId k = v \<and> v \<noteq> [] \<and>
        (\<exists>so. sockets ?s' (ws k) = Some so \<and> userId so = Some v \<and> readyState so \<noteq> CLOSED)"
  proof (cases "v = u")
    case True
    with entry conns have "k = \<lparr>conn_userId = u, ws = c\<rparr>" by simp
    with True u so socks show ?thesis by simp
  next
    case False
    with entry conns have old: "connections s v = Some k" by simp
    with inv obtain so' where k: "conn_userId k = v" "v \<noteq> []"
      "sockets s (ws k) = Some so'" "userId so' = Some v" "readyState so' \<noteq> CLOSED"
      unfolding registry_inv_def by blast
    have "ws k \<noteq> c"
    proof
      assume "ws k = c"
      with k so have "userId so = Some v" by simp
      with same False show False by auto
    qed
    with k socks show ?thesis by simp
  qed
qed

lemma registry_inv_step:
  assumes inv: "registry_inv s" and ok: "\<not> rebinds x s ev"
  shows "registry_inv (fst (step x s ev))"
proof (cases ev)
  case (Connection c)
  with inv show ?thesis by (simp add: registry_inv_on_connection)
next
  case (Close c)
  with inv show ?thesis by (simp add: registry_inv_on_close)
next
  case (Frame c data e)
  show ?thesis
  proof (cases "readyState_of s c = CLOSED")
    case True
    with Frame inv show ?thesis by simp
  next
    case False
    then obtain so where so: "sockets s c = Some so" "readyState so \<noteq> CLOSED"
      by (auto simp: readyState_of_def split: option.splits)
    have "registry_inv (fst (on_message x e s c data))"
    proof (cases data)
      case None
      with inv show ?thesis by (simp add: on_message_def)
    next
      case (Some msg)
      show ?thesis
      proof (cases "get_prop msg ''type'' = Returned (JStr ''auth'')")
        case True
        show ?thesis
        proof (cases "verifyRefreshToken x e (get_member msg ''token'')")
          case None
          with True Some inv show ?thesis
            by (simp add: on_message_auth auth_branch_def registry_inv_auth_failed)
        next
          case (Some payload)
          with ok Frame \<open>data = Some msg\<close> True so
          have "payload_userId payload \<noteq> []"
            and "userId so = None \<or> userId so = Some (payload_userId payload)"
            by (auto simp: userId_of_def split: option.splits)
          with inv so have "registry_inv
             (set_userId c (payload_userId payload)
                (s\<lparr>connections := (connections s)(payload_userId payload \<mapsto>
                     \<lparr>conn_userId = payload_userId payload, ws = c\<rparr>)\<rparr>))"
            by (intro registry_inv_auth_ok)
          with True Some \<open>data = Some msg\<close> show ?thesis
            by (simp add: on_message_auth auth_branch_def Let_def)
        qed
      next
        case False
        have same: "connections (fst (on_message x e s c (Some msg))) = connections s"
          "sockets (fst (on_message x e s c (Some msg))) = sockets s"
          using False
          by (auto simp: on_message_def split: result.splits option.splits)
        with inv Some show ?thesis by (simp add: registry_inv_def)
      qed
    qed
    with Frame False show ?thesis by simp
  qed
qed

lemma registry_inv_run:
  assumes "registry_inv s" and "single_identity x s evs"
  shows "registry_inv (fst (run x s evs))"
  using assms
proof (induction evs arbitrary: s)
  case Nil
  then show ?case by simp
next
  case (Cons ev evs)
  from Cons.prems have "registry_inv (fst (step x s ev))"
    and "single_identity x (fst (step x s ev)) evs"
    by (simp_all add: registry_inv_step)
  then have "registry_inv (fst (run x (fst (step x s ev)) evs))"
    by (rule Cons.IH)
  then show ?case by (simp add: split_beta Let_def)
qed

lemma forward_only_to_open:
  assumes "Sent c' (NewMessage m j) \<in> set (snd (on_message x e s c data))"
  shows "readyState_of s c' = OPEN"
proof -
  from on_message_trace_cases [of x e s c data]
  consider (err) "snd (on_message x e s c data) = catch_block c"
    | (nil) "snd (on_message x e s c data) = []"
    | (auth) msg where "snd (on_message x e s c data) = snd (auth_branch x e s c msg)"
    | (chat) msg u where "on_message x e s c data = chat_branch x e s c u msg"
    by blast
  then show ?thesis
  proof cases
    case err
    with assms show ?thesis by (simp add: catch_block_def)
  next
    case nil
    with assms show ?thesis by simp
  next
    case (auth msg)
    with assms auth_branch_trace [of x e s c msg] show ?thesis by auto
  next
    case (chat msg u)
    with assms chat_branch_shape [of x e s c u msg] show ?thesis
      by (auto simp: catch_block_def)
  qed
qed

lemma demo_two_users:
  "fst (run demo_ext (init_server demo_db)
     [Connection 1, Frame 1 (Some (auth_frame ''tokA'')) demo_env,
      Connection 2, Frame 2 (Some (auth_frame ''tokB'')) demo_env, Close 1]) =
   \<lparr>connections = [''B'' \<mapsto> \<lparr>conn_userId = ''B'', ws = 2\<rparr>],
     sockets = [1 \<mapsto> \<lparr>readyState = CLOSED, userId = Some ''A''\<rparr>,
                2 \<mapsto> \<lparr>readyState = OPEN, userId = Some ''B''\<rparr>],
     db = demo_db\<rparr>"
  by (simp add: on_message_auth auth_frame_type auth_frame_token auth_branch_def
      demo_verify_tokA demo_verify_tokB socket_defs on_close_def on_connection_def
      init_server_def Let_def fun_upd_twist)

lemma demo_two_users_single:
  "single_identity demo_ext (init_server demo_db)
     [Connection 1, Frame 1 (Some (auth_frame ''tokA'')) demo_env,
      Connection 2, Frame 2 (Some (auth_frame ''tokB'')) demo_env, Close 1]"
  by (simp add: on_message_auth auth_frame_type auth_frame_token auth_branch_def
      demo_verify_tokA demo_verify_tokB socket_defs on_close_def on_connection_def
      init_server_def Let_def)

subsection \<open>A connection stays unauthenticated until one of its auth frames verifies\<close>

lemma userId_of_ws_close: "userId_of (ws_close c' s) c = userId_of s c"
  by (simp add: userId_of_def ws_close_def split: option.splits)

lemma userId_of_set_userId_other:
  "c' \<noteq> c \<Longrightarrow> userId_of (set_userId c' u s) c = userId_of s c"
  by (simp add: userId_of_def set_userId_def split: option.splits)

lemma userId_of_chat_branch:
  "userId_of (fst (chat_branch x e s c' u msg)) c = userId_of s c"
  by (simp add: userId_of_def)

lemma userId_of_on_message:
  assumes "\<not> auth_succeeds x c (Frame c' data e)"
  shows "userId_of (fst (on_message x e s c' data)) c = userId_of s c"
proof (cases data)
  case None
  then show ?thesis by (simp add: on_message_def)
next
  case (Some msg)
  show ?thesis
  proof (cases "get_prop msg ''type'' = Returned (JStr ''auth'')")
    case True
    show ?thesis
    proof (cases "verifyRefreshToken x e (get_member msg ''token'')")
      case None
      with True Some show ?thesis
        by (simp add: on_message_auth auth_branch_def userId_of_ws_close)
    next
      case (Some payload)
      with assms True \<open>data = Some msg\<close> have "c' \<noteq> c" by auto
      with True Some \<open>data = Some msg\<close> show ?thesis
        by (simp add: on_message_auth auth_branch_def Let_def userId_of_set_userId_other)
          (simp add: userId_of_def)
    qed
  next
    case False
    with Some show ?thesis
      by (auto simp: on_message_def userId_of_chat_branch split: result.splits option.splits)
  qed
qed

lemma userId_None_step:
  assumes "userId_of s c = None" and "\<not> auth_succeeds x c ev"
  shows "userId_of (fst (step x s ev)) c = None"
proof (cases ev)
  case (Connection c')
  with assms show ?thesis
    by (auto simp: userId_of_def on_connection_def)
next
  case (Frame c' data e)
  with assms show ?thesis by (simp add: userId_of_on_message)
next
  case (Close c')
  with assms show ?thesis
    by (auto simp: userId_of_def on_close_def Let_def split: option.splits)
qed

lemma userId_None_run:
  assumes "userId_of s c = None" and "\<forall>ev \<in> set evs. \<not> auth_succeeds x c ev"
  shows "userId_of (fst (run x s evs)) c = None"
  using assms
proof (induction evs arbitrary: s)
  case Nil
  then show ?case by simp
next
  case (Cons ev evs)
  from Cons.prems have "userId_of (fst (step x s ev)) c = None"
    by (simp add: userId_None_step)
  moreover from Cons.prems have "\<forall>ev \<in> set evs. \<not> auth_succeeds x c ev" by simp
  ultimately have "userId_of (fst (run x (fst (step x s ev)) evs)) c = None"
    by (rule Cons.IH)
  then show ?case by (simp add: split_beta Let_def)
qed

subsection \<open>One message per relay, and the conversation's timestamp\<close>

text \<open>
  Claim C1 says that after a relay the conversation's \<open>lastMessageAt\<close> equals the creation
  timestamp of the persisted message. The two are read from different clocks:
  \<open>createdAt\<close> is the column default \<^verbatim>\<open>now()\<close> of the INSERT, \<open>lastMessageAt\<close> is a
  \<^verbatim>\<open>new Date()\<close> taken by \<^verbatim>\<open>updateChatLastMessage\<close> afterwards. With the INSERT at 100 and
  the UPDATE at 105 the row of \<open>hello\<close> has \<open>createdAt = 100\<close> and the conversation has
  \<open>lastMessageAt = 105\<close>.
\<close>

theorem lastMessageAt_differs_from_createdAt:
  "messages (db (fst (on_message demo_ext demo_env demo_server 1
      (Some (chat_message_frame ''chat-1'' ''hello''))))) = [demo_message] \<and>
   createdAt demo_message = 100 \<and>
   map_option lastMessageAt
     (chats (db (fst (on_message demo_ext demo_env demo_server 1
        (Some (chat_message_frame ''chat-1'' ''hello''))))) ''chat-1'') = Some (Some 105) \<and>
   map_option lastMessageAt
     (chats (db (fst (on_message demo_ext demo_env demo_server 1
        (Some (chat_message_frame ''chat-1'' ''hello''))))) ''chat-1'') \<noteq>
     Some (Some (createdAt demo_message))"
  by (simp only: demo_relay fst_conv)
    (simp add: demo_after_def demo_server_def demo_db_def demo_message_def demo_chat_def)

text \<open>
  Claim C1, amended. When the sender bound to the connection is the buyer or the seller of
  the conversation named by \<open>chatId\<close>, has a row in \<open>users\<close> (as the foreign keys of
  \<open>chats\<close> require) and the three round trips to the database succeed, exactly one row
  is appended to \<open>messages\<close>, with that conversation id, the sender's id, the given body,
  \<open>isRead = False\<close> and \<open>createdAt\<close> the database's clock at the INSERT; afterwards the
  conversation's \<open>lastMessageAt\<close> is the server's clock at the UPDATE.
\<close>

theorem relay_persists_one_message:
  assumes ty: "get_prop msg ''type'' = Returned (JStr ''chat_message'')"
    and cid: "get_member msg ''chatId'' = JStr cid"
    and body: "get_member msg ''content'' = JStr body"
    and uid: "userId_of s c = Some u" "u \<noteq> []"
    and chat: "chats (db s) cid = Some chat"
    and part: "buyerId chat = u \<or> sellerId chat = u"
    and user: "users (db s) u = Some row"
    and ok: "getChat_ok e" "createMessage_ok e" "updateChat_ok e"
  shows "messages (db (fst (on_message x e s c (Some msg)))) =
           messages (db s) @
           [\<lparr>msg_id = db_uuid e, chatId = cid, senderId = u, message = body,
             isRead = False, createdAt = db_now e\<rparr>] \<and>
         chats (db (fst (on_message x e s c (Some msg)))) cid =
           Some (chat\<lparr>lastMessageAt := Some (js_now e)\<rparr>)"
proof -
  have om: "on_message x e s c (Some msg) = chat_branch x e s c u msg"
    using ty uid by (rule on_message_chat)
  show ?thesis
    unfolding om using cid body chat part user ok
    by (auto simp: chat_branch_def storage_defs Let_def split: option.splits)
qed

text \<open>The theorem at \<open>hello\<close>.\<close>

theorem relay_persists_one_message_witness:
  "get_prop (chat_message_frame ''chat-1'' ''hello'') ''type'' = Returned (JStr ''chat_message'') \<and>
   userId_of demo_server 1 = Some ''A'' \<and>
   chats (db demo_server) ''chat-1'' = Some demo_chat \<and> buyerId demo_chat = ''A'' \<and>
   users (db demo_server) ''A'' =
     Some \<lparr>email = ''a@example.org'', user_role = ''buyer'', isActive = True\<rparr> \<and>
   getChat_ok demo_env \<and> createMessage_ok demo_env \<and> updateChat_ok demo_env \<and>
   messages (db (fst (on_message demo_ext demo_env demo_server 1
      (Some (chat_message_frame ''chat-1'' ''hello''))))) =
     [\<lparr>msg_id = ''m1'', chatId = ''chat-1'', senderId = ''A'', message = ''hello'',
       isRead = False, createdAt = 100\<rparr>] \<and>
   chats (db (fst (on_message demo_ext demo_env demo_server 1
      (Some (chat_message_frame ''chat-1'' ''hello''))))) ''chat-1'' =
     Some (demo_chat\<lparr>lastMessageAt := Some 105\<rparr>)"
proof -
  have chat: "chats (db demo_server) ''chat-1'' = Some demo_chat"
    by (simp add: demo_server_def demo_db_def)
  have buyer: "buyerId demo_chat = ''A''"
    by (simp add: demo_chat_def)
  have user: "users (db demo_server) ''A'' =
      Some \<lparr>email = ''a@example.org'', user_role = ''buyer'', isActive = True\<rparr>"
    by (simp add: demo_server_def demo_db_def)
  have ok: "getChat_ok demo_env" "createMessage_ok demo_env" "updateChat_ok demo_env"
    by (simp_all add: demo_env_def)
  have vals: "db_uuid demo_env = ''m1''" "db_now demo_env = 100" "js_now demo_env = 105"
    "messages (db demo_server) = []"
    by (simp_all add: demo_env_def demo_server_def demo_db_def)
  from relay_persists_one_message
    [OF demo_frame_type demo_frame_chatId demo_frame_content demo_userId _ chat _ user ok,
     where x = demo_ext]
    demo_frame_type demo_userId chat buyer user ok vals
  show ?thesis by simp
qed

subsection \<open>Relays that are refused, relays that fail\<close>

text \<open>
  Claim C2 says that an unknown conversation is reported to the sender as an error frame.
  The handler has no \<^verbatim>\<open>else\<close> for \<^verbatim>\<open>if (chat && ...)\<close>: \<open>A\<close> writing into a
  conversation that does not exist changes nothing and is sent nothing.
\<close>

theorem unknown_conversation_no_error_frame:
  "on_message demo_ext demo_env demo_server 1
     (Some (chat_message_frame ''no-such-chat'' ''hello'')) = (demo_server, [])"
  by (simp add: demo_defs handler_defs storage_defs socket_defs Let_def)

text \<open>
  Claim C2, amended. For a \<^verbatim>\<open>chat_message\<close> frame of an authenticated sender: when the
  conversation is not found, or the sender is neither its buyer nor its seller, the state
  is unchanged and no frame is sent, the frame is ignored in silence. When a storage call
  throws, the sender is sent the error frame \<open>Invalid message format\<close> and nothing is
  forwarded: nothing is persisted when \<^verbatim>\<open>getChat\<close> or \<^verbatim>\<open>createMessage\<close> throws, the
  message stays persisted when \<^verbatim>\<open>updateChatLastMessage\<close> throws.
\<close>

theorem rejected_relay_is_silent:
  assumes ty: "get_prop msg ''type'' = Returned (JStr ''chat_message'')"
    and uid: "userId_of s c = Some u" "u \<noteq> []"
  shows "(getChat x e (db s) (get_member msg ''chatId'') = Returned None \<longrightarrow>
            on_message x e s c (Some msg) = (s, [])) \<and>
         (\<forall>chat. getChat x e (db s) (get_member msg ''chatId'') = Returned (Some chat) \<and>
                 buyerId chat \<noteq> u \<and> sellerId chat \<noteq> u \<longrightarrow>
            on_message x e s c (Some msg) = (s, [])) \<and>
         (getChat x e (db s) (get_member msg ''chatId'') = Thrown \<longrightarrow>
            on_message x e s c (Some msg) =
              (s, [Logged, Sent c (ErrorFrame ''Invalid message format'')])) \<and>
         (\<forall>chat. getChat x e (db s) (get_member msg ''chatId'') = Returned (Some chat) \<and>
                 (buyerId chat = u \<or> sellerId chat = u) \<and>
                 createMessage x e (db s) (get_member msg ''chatId'') u
                   (get_member msg ''content'') = Thrown \<longrightarrow>
            on_message x e s c (Some msg) =
              (s, [Logged, Sent c (ErrorFrame ''Invalid message format'')])) \<and>
         (\<forall>chat m d1. getChat x e (db s) (get_member msg ''chatId'') = Returned (Some chat) \<and>
                 (buyerId chat = u \<or> sellerId chat = u) \<and>
                 createMessage x e (db s) (get_member msg ''chatId'') u
                   (get_member msg ''content'') = Returned (m, d1) \<and>
                 updateChatLastMessage x e d1 (get_member msg ''chatId'') = Thrown \<longrightarrow>
            on_message x e s c (Some msg) =
              (s\<lparr>db := d1\<rparr>,
               [Persisted m, Logged, Sent c (ErrorFrame ''Invalid message format'')]))"
proof -
  have om: "on_message x e s c (Some msg) = chat_branch x e s c u msg"
    using ty uid by (rule on_message_chat)
  show ?thesis
    unfolding om by (simp add: chat_branch_def catch_block_def Let_def)
qed

text \<open>
  The theorem at five runs: an unknown conversation, a sender \<open>C\<close> who is not in
  \<open>chat-1\<close>, and each of the three storage calls failing.
\<close>

theorem rejected_relay_is_silent_witness:
  "on_message demo_ext demo_env demo_server 1
     (Some (chat_message_frame ''no-such-chat'' ''hello'')) = (demo_server, []) \<and>
   on_message demo_ext demo_env
     (demo_server\<lparr>sockets := [1 \<mapsto> \<lparr>readyState = OPEN, userId = Some ''C''\<rparr>]\<rparr>) 1
     (Some (chat_message_frame ''chat-1'' ''hello'')) =
     (demo_server\<lparr>sockets := [1 \<mapsto> \<lparr>readyState = OPEN, userId = Some ''C''\<rparr>]\<rparr>, []) \<and>
   on_message demo_ext (demo_env\<lparr>getChat_ok := False\<rparr>) demo_server 1
     (Some (chat_message_frame ''chat-1'' ''hello'')) =
     (demo_server, [Logged, Sent 1 (ErrorFrame ''Invalid message format'')]) \<and>
   on_message demo_ext (demo_env\<lparr>createMessage_ok := False\<rparr>) demo_server 1
     (Some (chat_message_frame ''chat-1'' ''hello'')) =
     (demo_server, [Logged, Sent 1 (ErrorFrame ''Invalid message format'')]) \<and>
   on_message demo_ext (demo_env\<lparr>updateChat_ok := False\<rparr>) demo_server 1
     (Some (chat_message_frame ''chat-1'' ''hello'')) =
     (demo_server\<lparr>db := demo_inserted\<rparr>,
      [Persisted demo_message, Logged, Sent 1 (ErrorFrame ''Invalid message format'')])"
proof -
  let ?hello = "chat_message_frame ''chat-1'' ''hello''"
  let ?stranger = "demo_server\<lparr>sockets := [1 \<mapsto> \<lparr>readyState = OPEN, userId = Some ''C''\<rparr>]\<rparr>"
  have A: "''A'' \<noteq> []" and C: "''C'' \<noteq> []" by simp_all
  have stranger: "userId_of ?stranger 1 = Some ''C''"
    by (simp add: userId_of_def)
  have unknown: "getChat demo_ext demo_env (db demo_server)
      (get_member (chat_message_frame ''no-such-chat'' ''hello'') ''chatId'') = Returned None"
    by (simp add: eval_defs chat_message_frame_def)
  have other: "getChat demo_ext demo_env (db ?stranger) (get_member ?hello ''chatId'') =
      Returned (Some demo_chat) \<and> buyerId demo_chat \<noteq> ''C'' \<and> sellerId demo_chat \<noteq> ''C''"
    by (simp add: eval_defs)
  have down: "getChat demo_ext (demo_env\<lparr>getChat_ok := False\<rparr>) (db demo_server)
      (get_member ?hello ''chatId'') = Thrown"
    by (simp add: eval_defs)
  have insert_fails: "getChat demo_ext (demo_env\<lparr>createMessage_ok := False\<rparr>) (db demo_server)
      (get_member ?hello ''chatId'') = Returned (Some demo_chat) \<and>
      (buyerId demo_chat = ''A'' \<or> sellerId demo_chat = ''A'') \<and>
      createMessage demo_ext (demo_env\<lparr>createMessage_ok := False\<rparr>) (db demo_server)
        (get_member ?hello ''chatId'') ''A'' (get_member ?hello ''content'') = Thrown"
    by (simp add: eval_defs)
  have update_fails: "getChat demo_ext (demo_env\<lparr>updateChat_ok := False\<rparr>) (db demo_server)
      (get_member ?hello ''chatId'') = Returned (Some demo_chat) \<and>
      (buyerId demo_chat = ''A'' \<or> sellerId demo_chat = ''A'') \<and>
      createMessage demo_ext (demo_env\<lparr>updateChat_ok := False\<rparr>) (db demo_server)
        (get_member ?hello ''chatId'') ''A'' (get_member ?hello ''content'') =
        Returned (demo_message, demo_inserted) \<and>
      updateChatLastMessage demo_ext (demo_env\<lparr>updateChat_ok := False\<rparr>) demo_inserted
        (get_member ?hello ''chatId'') = Thrown"
    by (simp add: eval_defs demo_inserted_def)
  from rejected_relay_is_silent [OF demo_frame_type [of "''no-such-chat''" "''hello''"] demo_userId A,
      where x = demo_ext and e = demo_env] unknown
  have 1: "on_message demo_ext demo_env demo_server 1
     (Some (chat_message_frame ''no-such-chat'' ''hello'')) = (demo_server, [])"
    by blast
  from rejected_relay_is_silent [OF demo_frame_type [of "''chat-1''" "''hello''"] stranger C,
      where x = demo_ext and e = demo_env] other
  have 2: "on_message demo_ext demo_env ?stranger 1 (Some ?hello) = (?stranger, [])"
    by blast
  from rejected_relay_is_silent [OF demo_frame_type [of "''chat-1''" "''hello''"] demo_userId A,
      where x = demo_ext and e = "demo_env\<lparr>getChat_ok := False\<rparr>"] down
  have 3: "on_message demo_ext (demo_env\<lparr>getChat_ok := False\<rparr>) demo_server 1 (Some ?hello) =
     (demo_server, [Logged, Sent 1 (ErrorFrame ''Invalid message format'')])"
    by blast
  from rejected_relay_is_silent [OF demo_frame_type [of "''chat-1''" "''hello''"] demo_userId A,
      where x = demo_ext and e = "demo_env\<lparr>createMessage_ok := False\<rparr>"] insert_fails
  have 4: "on_message demo_ext (demo_env\<lparr>createMessage_ok := False\<rparr>) demo_server 1 (Some ?hello) =
     (demo_server, [Logged, Sent 1 (ErrorFrame ''Invalid message format'')])"
    by blast
  from rejected_relay_is_silent [OF demo_frame_type [of "''chat-1''" "''hello''"] demo_userId A,
      where x = demo_ext and e = "demo_env\<lparr>updateChat_ok := False\<rparr>"] update_fails
  have 5: "on_message demo_ext (demo_env\<lparr>updateChat_ok := False\<rparr>) demo_server 1 (Some ?hello) =
     (demo_server\<lparr>db := demo_inserted\<rparr>,
      [Persisted demo_message, Logged, Sent 1 (ErrorFrame ''Invalid message format'')])"
    by blast
  from 1 2 3 4 5 show ?thesis by blast
qed

subsection \<open>Durability before visibility\<close>

text \<open>
  Claim C3. In every run of the message handler, a push of a message, as \<^verbatim>\<open>new_message\<close>
  to the recipient or as \<^verbatim>\<open>message_sent\<close> to the sender, comes after the INSERT of that
  same message in program order; the INSERT did not fail, and the message is in the
  \<open>messages\<close> table when the run ends.
\<close>

theorem persisted_before_pushed:
  assumes run: "on_message x e s c data = (s', tr)"
    and at: "i < length tr" "tr ! i = Sent c' f"
    and push: "f = NewMessage m j \<or> f = MessageSent m"
  shows "(\<exists>k<i. tr ! k = Persisted m) \<and> m \<in> set (messages (db s')) \<and> createMessage_ok e"
proof -
  have tr: "tr = snd (on_message x e s c data)" and s': "s' = fst (on_message x e s c data)"
    using run by simp_all
  have mem: "Sent c' f \<in> set tr"
    using at by (metis nth_mem)
  from on_message_trace_cases [of x e s c data]
  consider (err) "tr = catch_block c" | (nil) "tr = []"
    | (auth) msg where "tr = snd (auth_branch x e s c msg)"
    | (chat) msg u where "(s', tr) = chat_branch x e s c u msg"
    using tr run by metis
  then show ?thesis
  proof cases
    case err
    with mem push show ?thesis by (auto simp: catch_block_def)
  next
    case nil
    with at show ?thesis by simp
  next
    case (auth msg)
    with mem push auth_branch_trace [of x e s c msg] show ?thesis by auto
  next
    case (chat msg u)
    from chat_branch_shape [of x e s c u msg]
    consider (quiet) "chat_branch x e s c u msg = (s, [])"
      | (caught) "chat_branch x e s c u msg = (s, catch_block c)"
      | (half) m' d1 where
          "chat_branch x e s c u msg = (s\<lparr>db := d1\<rparr>, Persisted m' # catch_block c)"
      | (full) m' d1 d2 fwd where
          "createMessage x e (db s) (get_member msg ''chatId'') u (get_member msg ''content'')
             = Returned (m', d1)"
          "updateChatLastMessage x e d1 (get_member msg ''chatId'') = Returned d2"
          "fwd = [] \<or> (\<exists>c'. fwd = [Sent c' (NewMessage m' (get_member msg ''chatId''))] \<and>
                         readyState_of s c' = OPEN)"
          "chat_branch x e s c u msg =
             (s\<lparr>db := d2\<rparr>,
              [Persisted m', Touched (get_member msg ''chatId'') (js_now e)] @ fwd @
              [Sent c (MessageSent m')])"
      by blast
    then show ?thesis
    proof cases
      case quiet
      with chat at show ?thesis by simp
    next
      case caught
      with chat mem push show ?thesis by (auto simp: catch_block_def)
    next
      case half
      with chat mem push show ?thesis by (auto simp: catch_block_def)
    next
      case full
      from full(4) chat
      have trs: "tr = [Persisted m', Touched (get_member msg ''chatId'') (js_now e)] @ fwd @
           [Sent c (MessageSent m')]" and s2: "s' = s\<lparr>db := d2\<rparr>" by simp_all
      from mem push full(3) trs have mm: "m = m'" by auto
      have "i \<noteq> 0" using at trs by (cases i) auto
      moreover have "tr ! 0 = Persisted m" using trs mm by simp
      ultimately have first: "\<exists>k<i. tr ! k = Persisted m" by blast
      from createMessage_Returned [OF full(1)] updateChatLastMessage_messages [OF full(2)]
      have "m' \<in> set (messages d2)" and "createMessage_ok e" by simp_all
      with first mm s2 show ?thesis by simp
    qed
  qed
qed

text \<open>The theorem at the confirmation \<open>A\<close> receives for \<open>hello\<close>.\<close>

theorem persisted_before_pushed_witness:
  "on_message demo_ext demo_env demo_server 1 (Some (chat_message_frame ''chat-1'' ''hello'')) =
     (demo_after, demo_trace) \<and>
   2 < length demo_trace \<and> demo_trace ! 2 = Sent 1 (MessageSent demo_message) \<and>
   (\<exists>k<2. demo_trace ! k = Persisted demo_message) \<and>
   demo_message \<in> set (messages (db demo_after)) \<and> createMessage_ok demo_env"
proof -
  have at: "2 < length demo_trace" "demo_trace ! 2 = Sent 1 (MessageSent demo_message)"
    by (simp_all add: demo_trace_def)
  from persisted_before_pushed [OF demo_relay at, where m = demo_message] demo_relay at
  show ?thesis by simp
qed

subsection \<open>A recipient who is not connected\<close>

text \<open>
  Claim C8. Whenever the relay succeeds (the conversation is found, the sender is its buyer or
  seller, INSERT and UPDATE succeed), the message is appended to \<open>messages\<close>, the last
  effect is \<^verbatim>\<open>message_sent\<close> on the sender's own connection whatever happened to the
  recipient, and no error frame is sent; when the registry has no entry for the other
  participant, or the entry's socket is not OPEN, nothing at all is sent to anyone else.
\<close>

theorem sender_confirmed_without_recipient:
  assumes ty: "get_prop msg ''type'' = Returned (JStr ''chat_message'')"
    and uid: "userId_of s c = Some u" "u \<noteq> []"
    and chat: "getChat x e (db s) (get_member msg ''chatId'') = Returned (Some chat)"
    and part: "buyerId chat = u \<or> sellerId chat = u"
    and ins: "createMessage x e (db s) (get_member msg ''chatId'') u (get_member msg ''content'')
                = Returned (m, d1)"
    and upd: "updateChatLastMessage x e d1 (get_member msg ''chatId'') = Returned d2"
  shows "messages (db (fst (on_message x e s c (Some msg)))) = messages (db s) @ [m] \<and>
         last (snd (on_message x e s c (Some msg))) = Sent c (MessageSent m) \<and>
         (\<forall>c' d. Sent c' (ErrorFrame d) \<notin> set (snd (on_message x e s c (Some msg)))) \<and>
         ((case connections s (if buyerId chat = u then sellerId chat else buyerId chat) of
             None \<Rightarrow> True
           | Some oc \<Rightarrow> readyState_of s (ws oc) \<noteq> OPEN) \<longrightarrow>
          snd (on_message x e s c (Some msg)) =
            [Persisted m, Touched (get_member msg ''chatId'') (js_now e), Sent c (MessageSent m)])"
proof -
  have om: "on_message x e s c (Some msg) = chat_branch x e s c u msg"
    using ty uid by (rule on_message_chat)
  from createMessage_Returned [OF ins] updateChatLastMessage_messages [OF upd]
  have msgs: "messages d2 = messages (db s) @ [m]" by simp
  show ?thesis
    unfolding om using chat part ins upd msgs
    by (auto simp: chat_branch_def Let_def split: option.splits)
qed

text \<open>The theorem at \<open>hello\<close>, sent while \<open>B\<close> has no entry in the registry.\<close>

theorem sender_confirmed_without_recipient_witness:
  "get_prop (chat_message_frame ''chat-1'' ''hello'') ''type'' = Returned (JStr ''chat_message'') \<and>
   userId_of demo_server 1 = Some ''A'' \<and>
   getChat demo_ext demo_env (db demo_server) (JStr ''chat-1'') = Returned (Some demo_chat) \<and>
   buyerId demo_chat = ''A'' \<and>
   createMessage demo_ext demo_env (db demo_server) (JStr ''chat-1'') ''A'' (JStr ''hello'') =
     Returned (demo_message, demo_inserted) \<and>
   updateChatLastMessage demo_ext demo_env demo_inserted (JStr ''chat-1'') =
     Returned (db demo_after) \<and>
   connections demo_server ''B'' = None \<and>
   messages (db (fst (on_message demo_ext demo_env demo_server 1
      (Some (chat_message_frame ''chat-1'' ''hello''))))) = [demo_message] \<and>
   snd (on_message demo_ext demo_env demo_server 1
      (Some (chat_message_frame ''chat-1'' ''hello''))) =
     [Persisted demo_message, Touched (JStr ''chat-1'') 105, Sent 1 (MessageSent demo_message)]"
proof -
  have buyer: "buyerId demo_chat = ''A''" and seller: "sellerId demo_chat = ''B''"
    by (simp_all add: demo_chat_def)
  have absent: "connections demo_server ''B'' = None"
    by (simp add: demo_server_def)
  have empty: "messages (db demo_server) = []" and now: "js_now demo_env = 105"
    by (simp_all add: demo_defs)
  from sender_confirmed_without_recipient
    [of "chat_message_frame ''chat-1'' ''hello''" demo_server 1 "''A''" demo_ext demo_env
        demo_chat demo_message demo_inserted "db demo_after"]
    demo_frame_type demo_userId demo_getChat demo_createMessage demo_updateChat
    buyer seller absent empty now
  show ?thesis
    by (simp add: demo_frame_chatId demo_frame_content)
qed

subsection \<open>A chat frame before authentication\<close>

text \<open>
  Claim C4 says that a \<^verbatim>\<open>chat_message\<close> frame on a connection that has not authenticated
  is answered with an error frame. The guard \<^verbatim>\<open>message.type === 'chat_message' && userId\<close>
  skips the frame: nothing is sent.
\<close>

theorem chat_before_auth_no_error_frame:
  "on_message demo_ext demo_env fresh_server 1
     (Some (chat_message_frame ''chat-1'' ''hello'')) = (fresh_server, [])"
  by (simp add: eval_defs)

text \<open>
  Claim C4, amended. A \<^verbatim>\<open>chat_message\<close> frame on a connection whose \<^verbatim>\<open>userId\<close> is still
  \<^verbatim>\<open>null\<close> persists nothing and sends nothing: the state is unchanged and the run has no
  effect.
\<close>

theorem chat_before_auth_ignored:
  assumes "get_prop msg ''type'' = Returned (JStr ''chat_message'')"
    and "userId_of s c = None"
  shows "on_message x e s c (Some msg) = (s, [])"
  using assms by (simp add: on_message_def)

text \<open>The theorem at connection 1 of \<open>fresh_server\<close>.\<close>

theorem chat_before_auth_ignored_witness:
  "get_prop (chat_message_frame ''chat-1'' ''hello'') ''type'' = Returned (JStr ''chat_message'') \<and>
   userId_of fresh_server 1 = None \<and>
   on_message demo_ext demo_env fresh_server 1
     (Some (chat_message_frame ''chat-1'' ''hello'')) = (fresh_server, [])"
proof -
  have none: "userId_of fresh_server 1 = None"
    by (simp add: fresh_server_def userId_of_def)
  from chat_before_auth_ignored [OF demo_frame_type none] demo_frame_type none
  show ?thesis by blast
qed

subsection \<open>The connection registry\<close>

text \<open>
  Claim C5 says that the registry never holds an entry that points at a closed connection.
  The close handler deletes only the entry filed under the connection's current
  \<^verbatim>\<open>userId\<close>. Connection 1 authenticates as \<open>A\<close> and then as \<open>B\<close>, and closes: the
  entry of \<open>A\<close> stays and points at the closed connection 1.
\<close>

theorem stale_entry_after_second_identity:
  "connections (fst (run demo_ext (init_server demo_db)
     [Connection 1, Frame 1 (Some (auth_frame ''tokA'')) demo_env,
      Frame 1 (Some (auth_frame ''tokB'')) demo_env, Close 1])) ''A'' =
     Some \<lparr>conn_userId = ''A'', ws = 1\<rparr> \<and>
   readyState_of (fst (run demo_ext (init_server demo_db)
     [Connection 1, Frame 1 (Some (auth_frame ''tokA'')) demo_env,
      Frame 1 (Some (auth_frame ''tokB'')) demo_env, Close 1])) 1 = CLOSED"
  by (simp add: on_message_auth auth_frame_type auth_frame_token auth_branch_def
      demo_verify_tokA demo_verify_tokB socket_defs on_close_def on_connection_def
      init_server_def Let_def)

text \<open>
  Claim C5, amended. The registry is a map keyed by user id, and a successful
  authentication overwrites the entry of its user, so there is at most one entry per user
  and a second authentication for the same user replaces the first. On every run of the
  server from the empty registry in which no connection takes a second identity (and no
  token carries an empty user id), each entry is filed under its own user id and points at
  a connection that has not been closed. And whatever the registry holds, the relay
  forwards \<^verbatim>\<open>new_message\<close> only to a socket that is OPEN.
\<close>

theorem registry_entries:
  "(get_prop msg ''type'' = Returned (JStr ''auth'') \<and>
    verifyRefreshToken x e (get_member msg ''token'') = Some payload \<longrightarrow>
      connections (fst (on_message x e s c (Some msg))) =
        (connections s)(payload_userId payload \<mapsto>
           \<lparr>conn_userId = payload_userId payload, ws = c\<rparr>)) \<and>
   (single_identity x (init_server d) evs \<and>
    connections (fst (run x (init_server d) evs)) u = Some k \<longrightarrow>
      conn_userId k = u \<and> readyState_of (fst (run x (init_server d) evs)) (ws k) \<noteq> CLOSED) \<and>
   (Sent c' (NewMessage m j) \<in> set (snd (on_message x e s c data)) \<longrightarrow>
      readyState_of s c' = OPEN)"
proof (intro conjI impI)
  assume "get_prop msg ''type'' = Returned (JStr ''auth'') \<and>
    verifyRefreshToken x e (get_member msg ''token'') = Some payload"
  then show "connections (fst (on_message x e s c (Some msg))) =
        (connections s)(payload_userId payload \<mapsto>
           \<lparr>conn_userId = payload_userId payload, ws = c\<rparr>)"
    by (simp add: on_message_auth auth_branch_def set_userId_def Let_def split: option.splits)
next
  assume h: "single_identity x (init_server d) evs \<and>
    connections (fst (run x (init_server d) evs)) u = Some k"
  then have "registry_inv (fst (run x (init_server d) evs))"
    by (simp add: registry_inv_run registry_inv_init)
  with h obtain so where "conn_userId k = u"
    "sockets (fst (run x (init_server d) evs)) (ws k) = Some so" "readyState so \<noteq> CLOSED"
    unfolding registry_inv_def by blast
  then show "conn_userId k = u" 
    and "readyState_of (fst (run x (init_server d) evs)) (ws k) \<noteq> CLOSED"
    by (simp_all add: readyState_of_def)
next
  assume "Sent c' (NewMessage m j) \<in> set (snd (on_message x e s c data))"
  then show "readyState_of s c' = OPEN" by (rule forward_only_to_open)
qed

text \<open>
  The theorem at three inputs: \<open>A\<close> authenticating on connection 2 while bound to connection
  1; \<open>A\<close> and \<open>B\<close> on a connection each, and \<open>A\<close> leaving; \<open>A\<close> writing to \<open>B\<close> while
  both are connected.
\<close>

theorem registry_entries_witness:
  "get_prop (auth_frame ''tokA'') ''type'' = Returned (JStr ''auth'') \<and>
   verifyRefreshToken demo_ext demo_env (get_member (auth_frame ''tokA'') ''token'') =
     Some \<lparr>payload_userId = ''A'', payload_role = ''buyer''\<rparr> \<and>
   connections both_online ''A'' = Some \<lparr>conn_userId = ''A'', ws = 1\<rparr> \<and>
   connections (fst (on_message demo_ext demo_env both_online 2 (Some (auth_frame ''tokA'')))) ''A'' =
     Some \<lparr>conn_userId = ''A'', ws = 2\<rparr> \<and>
   single_identity demo_ext (init_server demo_db)
     [Connection 1, Frame 1 (Some (auth_frame ''tokA'')) demo_env,
      Connection 2, Frame 2 (Some (auth_frame ''tokB'')) demo_env, Close 1] \<and>
   connections (fst (run demo_ext (init_server demo_db)
     [Connection 1, Frame 1 (Some (auth_frame ''tokA'')) demo_env,
      Connection 2, Frame 2 (Some (auth_frame ''tokB'')) demo_env, Close 1])) ''B'' =
     Some \<lparr>conn_userId = ''B'', ws = 2\<rparr> \<and>
   readyState_of (fst (run demo_ext (init_server demo_db)
     [Connection 1, Frame 1 (Some (auth_frame ''tokA'')) demo_env,
      Connection 2, Frame 2 (Some (auth_frame ''tokB'')) demo_env, Close 1])) 2 \<noteq> CLOSED \<and>
   Sent 2 (NewMessage demo_message (JStr ''chat-1'')) \<in>
     set (snd (on_message demo_ext demo_env both_online 1
       (Some (chat_message_frame ''chat-1'' ''hello'')))) \<and>
   readyState_of both_online 2 = OPEN"
proof -
  let ?evs = "[Connection 1, Frame 1 (Some (auth_frame ''tokA'')) demo_env,
      Connection 2, Frame 2 (Some (auth_frame ''tokB'')) demo_env, Close 1]"
  let ?hello = "chat_message_frame ''chat-1'' ''hello''"
  have good: "verifyRefreshToken demo_ext demo_env (get_member (auth_frame ''tokA'') ''token'') =
     Some \<lparr>payload_userId = ''A'', payload_role = ''buyer''\<rparr>"
    by (simp only: auth_frame_token demo_verify_tokA)
  have before: "connections both_online ''A'' = Some \<lparr>conn_userId = ''A'', ws = 1\<rparr>"
    by (simp add: both_online_def)
  have entry: "connections (fst (run demo_ext (init_server demo_db) ?evs)) ''B'' =
     Some \<lparr>conn_userId = ''B'', ws = 2\<rparr>"
    by (simp only: demo_two_users) simp
  have sent: "Sent 2 (NewMessage demo_message (JStr ''chat-1'')) \<in>
     set (snd (on_message demo_ext demo_env both_online 1 (Some ?hello)))"
    by (simp only: both_online_relay) simp
  note inst = registry_entries [where x = demo_ext and e = demo_env and d = demo_db]
  from inst [where msg = "auth_frame ''tokA''" and s = both_online and c = 2] auth_frame_type good
  have 1: "connections (fst (on_message demo_ext demo_env both_online 2
      (Some (auth_frame ''tokA'')))) ''A'' = Some \<lparr>conn_userId = ''A'', ws = 2\<rparr>"
    by simp
  from inst [where evs = ?evs and u = "''B''" and k = "\<lparr>conn_userId = ''B'', ws = 2\<rparr>"]
    demo_two_users_single entry
  have 2: "readyState_of (fst (run demo_ext (init_server demo_db) ?evs)) 2 \<noteq> CLOSED"
    by simp
  from inst [where s = both_online and c = 1 and data = "Some ?hello" and c' = 2
      and m = demo_message and j = "JStr ''chat-1''"] sent
  have 3: "readyState_of both_online 2 = OPEN"
    by blast
  from 1 2 3 auth_frame_type [of "''tokA''"] good before demo_two_users_single entry sent
  show ?thesis by blast
qed

subsection \<open>The authentication handshake\<close>

text \<open>
  Claim C6 says that after a failed authentication no further frame is processed for relay
  on the connection. The handler calls \<^verbatim>\<open>ws.close()\<close> and leaves \<^verbatim>\<open>userId\<close> as it was.
  Connection 1 is bound to \<open>A\<close>, sends a token that does not verify, and then a chat
  frame, which arrives before the closing handshake completes: the message is relayed.
\<close>

theorem relay_after_failed_auth:
  "snd (run demo_ext demo_server
     [Frame 1 (Some (auth_frame ''bad'')) demo_env,
      Frame 1 (Some (chat_message_frame ''chat-1'' ''hello'')) demo_env]) =
   [Sent 1 (AuthStatus False), CloseCalled 1,
    Persisted demo_message, Touched (JStr ''chat-1'') 105, Sent 1 (MessageSent demo_message)]"
  by (simp add: eval_defs)

text \<open>
  Claim C6, amended. For every auth frame on an existing connection: if the token verifies,
  the registry entry of the payload's user id is set to this connection (replacing any
  earlier one), the connection's \<^verbatim>\<open>userId\<close> becomes that id, no socket changes its
  readyState (the connection replaced is not closed), and the only effect is
  \<^verbatim>\<open>auth/success\<close>. If it does not verify, \<^verbatim>\<open>auth/failed\<close> is sent and \<^verbatim>\<open>ws.close()\<close> is
  called: the socket is no longer OPEN, the registry and the connection's \<^verbatim>\<open>userId\<close>
  are unchanged. On a connection that had not authenticated before, no chat frame is
  relayed from then on for as long as no later auth frame on that connection verifies,
  whatever else the server handles in between: such a chat frame leaves the state as it is
  and has no effect.
\<close>

theorem auth_frame_outcome:
  assumes ty: "get_prop msg ''type'' = Returned (JStr ''auth'')"
    and sock: "sockets s c = Some k"
  shows "(\<forall>payload. verifyRefreshToken x e (get_member msg ''token'') = Some payload \<longrightarrow>
            snd (on_message x e s c (Some msg)) = [Sent c (AuthStatus True)] \<and>
            connections (fst (on_message x e s c (Some msg))) =
              (connections s)(payload_userId payload \<mapsto>
                 \<lparr>conn_userId = payload_userId payload, ws = c\<rparr>) \<and>
            userId_of (fst (on_message x e s c (Some msg))) c = Some (payload_userId payload) \<and>
            (\<forall>c'. readyState_of (fst (on_message x e s c (Some msg))) c' = readyState_of s c')) \<and>
         (verifyRefreshToken x e (get_member msg ''token'') = None \<longrightarrow>
            snd (on_message x e s c (Some msg)) = [Sent c (AuthStatus False), CloseCalled c] \<and>
            connections (fst (on_message x e s c (Some msg))) = connections s \<and>
            readyState_of (fst (on_message x e s c (Some msg))) c \<noteq> OPEN \<and>
            userId_of (fst (on_message x e s c (Some msg))) c = userId_of s c \<and>
            (userId_of s c = None \<longrightarrow>
               (\<forall>evs e' msg'.
                  (\<forall>ev \<in> set evs. \<not> auth_succeeds x c ev) \<longrightarrow>
                  get_prop msg' ''type'' = Returned (JStr ''chat_message'') \<longrightarrow>
                  on_message x e' (fst (run x (fst (on_message x e s c (Some msg))) evs)) c
                    (Some msg') =
                    (fst (run x (fst (on_message x e s c (Some msg))) evs), []))))"
proof -
  have om: "on_message x e s c (Some msg) = auth_branch x e s c msg"
    using ty by (rule on_message_auth)
  have ok: "\<forall>payload. verifyRefreshToken x e (get_member msg ''token'') = Some payload \<longrightarrow>
            snd (auth_branch x e s c msg) = [Sent c (AuthStatus True)] \<and>
            connections (fst (auth_branch x e s c msg)) =
              (connections s)(payload_userId payload \<mapsto>
                 \<lparr>conn_userId = payload_userId payload, ws = c\<rparr>) \<and>
            userId_of (fst (auth_branch x e s c msg)) c = Some (payload_userId payload) \<and>
            (\<forall>c'. readyState_of (fst (auth_branch x e s c msg)) c' = readyState_of s c')"
    using sock by (simp add: auth_branch_def socket_defs Let_def)
  have failed: "verifyRefreshToken x e (get_member msg ''token'') = None \<longrightarrow>
            snd (auth_branch x e s c msg) = [Sent c (AuthStatus False), CloseCalled c] \<and>
            connections (fst (auth_branch x e s c msg)) = connections s \<and>
            readyState_of (fst (auth_branch x e s c msg)) c \<noteq> OPEN \<and>
            userId_of (fst (auth_branch x e s c msg)) c = userId_of s c"
    using sock by (simp add: auth_branch_def socket_defs)
  have quiet: "userId_of (fst (auth_branch x e s c msg)) c = None \<longrightarrow>
      (\<forall>evs e' msg'.
          (\<forall>ev \<in> set evs. \<not> auth_succeeds x c ev) \<longrightarrow>
          get_prop msg' ''type'' = Returned (JStr ''chat_message'') \<longrightarrow>
          on_message x e' (fst (run x (fst (auth_branch x e s c msg)) evs)) c (Some msg') =
            (fst (run x (fst (auth_branch x e s c msg)) evs), []))"
  proof (intro impI allI)
    fix evs e' msg'
    assume "userId_of (fst (auth_branch x e s c msg)) c = None"
      and "\<forall>ev \<in> set evs. \<not> auth_succeeds x c ev"
      and chat: "get_prop msg' ''type'' = Returned (JStr ''chat_message'')"
    then have "userId_of (fst (run x (fst (auth_branch x e s c msg)) evs)) c = None"
      by (simp add: userId_None_run)
    with chat show "on_message x e' (fst (run x (fst (auth_branch x e s c msg)) evs)) c (Some msg') =
            (fst (run x (fst (auth_branch x e s c msg)) evs), [])"
      by (simp add: on_message_def)
  qed
  from ok failed quiet show ?thesis
    unfolding om by simp
qed

text \<open>
  The theorem on connection 1 of \<open>fresh_server\<close>, with a good and with a bad token; after the
  bad token a chat frame is ignored at once, and again after a chat frame, a second bad
  token and the authentication of \<open>A\<close> on connection 2.
\<close>

theorem auth_frame_outcome_witness:
  "get_prop (auth_frame ''tokA'') ''type'' = Returned (JStr ''auth'') \<and>
   sockets fresh_server 1 = Some \<lparr>readyState = OPEN, userId = None\<rparr> \<and>
   verifyRefreshToken demo_ext demo_env (get_member (auth_frame ''tokA'') ''token'') =
     Some \<lparr>payload_userId = ''A'', payload_role = ''buyer''\<rparr> \<and>
   snd (on_message demo_ext demo_env fresh_server 1 (Some (auth_frame ''tokA''))) =
     [Sent 1 (AuthStatus True)] \<and>
   connections (fst (on_message demo_ext demo_env fresh_server 1 (Some (auth_frame ''tokA'')))) ''A'' =
     Some \<lparr>conn_userId = ''A'', ws = 1\<rparr> \<and>
   verifyRefreshToken demo_ext demo_env (get_member (auth_frame ''bad'') ''token'') = None \<and>
   userId_of fresh_server 1 = None \<and>
   snd (on_message demo_ext demo_env fresh_server 1 (Some (auth_frame ''bad''))) =
     [Sent 1 (AuthStatus False), CloseCalled 1] \<and>
   readyState_of (fst (on_message demo_ext demo_env fresh_server 1 (Some (auth_frame ''bad'')))) 1
     \<noteq> OPEN \<and>
   on_message demo_ext demo_env
     (fst (on_message demo_ext demo_env fresh_server 1 (Some (auth_frame ''bad'')))) 1
     (Some (chat_message_frame ''chat-1'' ''hello'')) =
     (fst (on_message demo_ext demo_env fresh_server 1 (Some (auth_frame ''bad''))), []) \<and>
   \<not> auth_succeeds demo_ext 1 (Frame 1 (Some (chat_message_frame ''chat-1'' ''hello'')) demo_env) \<and>
   \<not> auth_succeeds demo_ext 1 (Frame 1 (Some (auth_frame ''bad'')) demo_env) \<and>
   \<not> auth_succeeds demo_ext 1 (Connection 2) \<and>
   \<not> auth_succeeds demo_ext 1 (Frame 2 (Some (auth_frame ''tokA'')) demo_env) \<and>
   on_message demo_ext demo_env
     (fst (run demo_ext (fst (on_message demo_ext demo_env fresh_server 1 (Some (auth_frame ''bad''))))
        [Frame 1 (Some (chat_message_frame ''chat-1'' ''hello'')) demo_env,
         Frame 1 (Some (auth_frame ''bad'')) demo_env,
         Connection 2, Frame 2 (Some (auth_frame ''tokA'')) demo_env])) 1
     (Some (chat_message_frame ''chat-1'' ''hello'')) =
     (fst (run demo_ext (fst (on_message demo_ext demo_env fresh_server 1 (Some (auth_frame ''bad''))))
        [Frame 1 (Some (chat_message_frame ''chat-1'' ''hello'')) demo_env,
         Frame 1 (Some (auth_frame ''bad'')) demo_env,
         Connection 2, Frame 2 (Some (auth_frame ''tokA'')) demo_env]), [])"
proof -
  let ?evs = "[Frame 1 (Some (chat_message_frame ''chat-1'' ''hello'')) demo_env,
         Frame 1 (Some (auth_frame ''bad'')) demo_env,
         Connection 2, Frame 2 (Some (auth_frame ''tokA'')) demo_env]"
  let ?s' = "fst (on_message demo_ext demo_env fresh_server 1 (Some (auth_frame ''bad'')))"
  have sock: "sockets fresh_server 1 = Some \<lparr>readyState = OPEN, userId = None\<rparr>"
    by (simp add: fresh_server_def)
  have none: "userId_of fresh_server 1 = None"
    by (simp add: fresh_server_def userId_of_def)
  have good: "verifyRefreshToken demo_ext demo_env (get_member (auth_frame ''tokA'') ''token'') =
     Some \<lparr>payload_userId = ''A'', payload_role = ''buyer''\<rparr>"
    by (simp only: auth_frame_token demo_verify_tokA)
  have bad: "verifyRefreshToken demo_ext demo_env (get_member (auth_frame ''bad'') ''token'') = None"
    by (simp only: auth_frame_token demo_verify_bad)
  have quiet: "\<forall>ev \<in> set ?evs. \<not> auth_succeeds demo_ext 1 ev"
    by (simp add: demo_frame_type auth_frame_type auth_frame_token demo_verify_bad)
  have nil: "\<forall>ev \<in> set ([] :: event list). \<not> auth_succeeds demo_ext 1 ev"
    by simp
  from auth_frame_outcome [OF auth_frame_type [of "''tokA''"] sock, where x = demo_ext and e = demo_env]
    good
  have 1: "snd (on_message demo_ext demo_env fresh_server 1 (Some (auth_frame ''tokA''))) =
     [Sent 1 (AuthStatus True)] \<and>
     connections (fst (on_message demo_ext demo_env fresh_server 1 (Some (auth_frame ''tokA'')))) ''A'' =
     Some \<lparr>conn_userId = ''A'', ws = 1\<rparr>"
    by simp
  note failed = auth_frame_outcome [OF auth_frame_type [of "''bad''"] sock,
      where x = demo_ext and e = demo_env, THEN conjunct2, rule_format, OF bad]
  from failed have 2: "snd (on_message demo_ext demo_env fresh_server 1 (Some (auth_frame ''bad''))) =
     [Sent 1 (AuthStatus False), CloseCalled 1] \<and>
     readyState_of ?s' 1 \<noteq> OPEN"
    by blast
  from failed none have later: "\<And>evs e' msg'.
      \<forall>ev \<in> set evs. \<not> auth_succeeds demo_ext 1 ev \<Longrightarrow>
      get_prop msg' ''type'' = Returned (JStr ''chat_message'') \<Longrightarrow>
      on_message demo_ext e' (fst (run demo_ext ?s' evs)) 1 (Some msg') =
        (fst (run demo_ext ?s' evs), [])"
    by blast
  from later [OF nil demo_frame_type, of demo_env "''chat-1''" "''hello''"]
  have 3: "on_message demo_ext demo_env ?s' 1 (Some (chat_message_frame ''chat-1'' ''hello'')) =
     (?s', [])"
    by simp
  from later [OF quiet demo_frame_type, of demo_env "''chat-1''" "''hello''"]
  have 4: "on_message demo_ext demo_env (fst (run demo_ext ?s' ?evs)) 1
     (Some (chat_message_frame ''chat-1'' ''hello'')) = (fst (run demo_ext ?s' ?evs), [])" .
  from quiet
  have 5: "\<not> auth_succeeds demo_ext 1
        (Frame 1 (Some (chat_message_frame ''chat-1'' ''hello'')) demo_env)"
    "\<not> auth_succeeds demo_ext 1 (Frame 1 (Some (auth_frame ''bad'')) demo_env)"
    "\<not> auth_succeeds demo_ext 1 (Connection 2)"
    "\<not> auth_succeeds demo_ext 1 (Frame 2 (Some (auth_frame ''tokA'')) demo_env)"
    by simp_all
  from 1 2 3 4 5 sock none good bad auth_frame_type [of "''tokA''"] show ?thesis by blast
qed

subsection \<open>Frames that cannot be decoded\<close>

text \<open>
  Claim C7 says that a frame with an unrecognized type tag is answered with an error frame.
  Neither \<^verbatim>\<open>if\<close> of the handler matches such a frame and nothing throws: nothing is sent.
\<close>

theorem unknown_type_no_error_frame:
  "on_message demo_ext demo_env demo_server 1 (Some (JObj [(''type'', JStr ''ping'')])) =
     (demo_server, [])"
  by (simp add: on_message_def)

text \<open>
  Claim C7, amended. A frame that is not valid JSON, or is the JSON value \<^verbatim>\<open>null\<close>, does
  not crash the handler: the exception is caught, logged and answered with the error frame
  \<open>Invalid message format\<close> on the same connection, and the state, the connection's
  readyState with it, is unchanged. A frame whose \<^verbatim>\<open>type\<close> is missing or is neither
  \<^verbatim>\<open>auth\<close> nor \<^verbatim>\<open>chat_message\<close> is ignored: nothing is sent, nothing changes. Frames
  with a required field missing:
  \<^item> an \<^verbatim>\<open>auth\<close> frame without \<^verbatim>\<open>token\<close> is answered with \<^verbatim>\<open>auth/failed\<close> and
    \<^verbatim>\<open>ws.close()\<close>;
  \<^item> a \<^verbatim>\<open>chat_message\<close> frame of an authenticated sender without \<^verbatim>\<open>chatId\<close> finds no
    conversation and is ignored, nothing is sent and nothing changes (when the lookup's
    round trip succeeds);
  \<^item> a \<^verbatim>\<open>chat_message\<close> frame without \<^verbatim>\<open>content\<close>, from a sender who is the buyer or
    seller of the conversation it names, is refused by the INSERT: the exception is caught,
    logged and answered with the error frame, nothing is persisted, the state is unchanged.
\<close>

theorem bad_frames:
  "on_message x e s c None = (s, [Logged, Sent c (ErrorFrame ''Invalid message format'')]) \<and>
   on_message x e s c (Some Null) = (s, [Logged, Sent c (ErrorFrame ''Invalid message format'')]) \<and>
   (get_prop msg ''type'' = Returned ty \<and> ty \<noteq> JStr ''auth'' \<and> ty \<noteq> JStr ''chat_message'' \<longrightarrow>
      on_message x e s c (Some msg) = (s, [])) \<and>
   (get_prop msg ''type'' = Returned (JStr ''auth'') \<and> get_member msg ''token'' = Undefined \<longrightarrow>
      on_message x e s c (Some msg) = (ws_close c s, [Sent c (AuthStatus False), CloseCalled c])) \<and>
   (get_prop msg ''type'' = Returned (JStr ''chat_message'') \<and>
    userId_of s c = Some u \<and> u \<noteq> [] \<and>
    get_member msg ''chatId'' = Undefined \<and> getChat_ok e \<longrightarrow>
      on_message x e s c (Some msg) = (s, [])) \<and>
   (get_prop msg ''type'' = Returned (JStr ''chat_message'') \<and>
    userId_of s c = Some u \<and> u \<noteq> [] \<and>
    getChat x e (db s) (get_member msg ''chatId'') = Returned (Some chat) \<and>
    (buyerId chat = u \<or> sellerId chat = u) \<and>
    get_member msg ''content'' = Undefined \<longrightarrow>
      on_message x e s c (Some msg) =
        (s, [Logged, Sent c (ErrorFrame ''Invalid message format'')]))"
proof -
  have first: "on_message x e s c None = (s, [Logged, Sent c (ErrorFrame ''Invalid message format'')]) \<and>
   on_message x e s c (Some Null) = (s, [Logged, Sent c (ErrorFrame ''Invalid message format'')]) \<and>
   (get_prop msg ''type'' = Returned ty \<and> ty \<noteq> JStr ''auth'' \<and> ty \<noteq> JStr ''chat_message'' \<longrightarrow>
      on_message x e s c (Some msg) = (s, [])) \<and>
   (get_prop msg ''type'' = Returned (JStr ''auth'') \<and> get_member msg ''token'' = Undefined \<longrightarrow>
      on_message x e s c (Some msg) = (ws_close c s, [Sent c (AuthStatus False), CloseCalled c]))"
    by (simp add: on_message_def catch_block_def auth_branch_def verifyRefreshToken_def)
  have no_chatId: "get_prop msg ''type'' = Returned (JStr ''chat_message'') \<and>
    userId_of s c = Some u \<and> u \<noteq> [] \<and>
    get_member msg ''chatId'' = Undefined \<and> getChat_ok e \<longrightarrow>
      on_message x e s c (Some msg) = (s, [])"
    by (simp add: on_message_chat chat_branch_def getChat_def sql_param_def Let_def)
  have no_content: "get_prop msg ''type'' = Returned (JStr ''chat_message'') \<and>
    userId_of s c = Some u \<and> u \<noteq> [] \<and>
    getChat x e (db s) (get_member msg ''chatId'') = Returned (Some chat) \<and>
    (buyerId chat = u \<or> sellerId chat = u) \<and>
    get_member msg ''content'' = Undefined \<longrightarrow>
      on_message x e s c (Some msg) =
        (s, [Logged, Sent c (ErrorFrame ''Invalid message format'')])"
    by (auto simp: on_message_chat chat_branch_def createMessage_def sql_param_def catch_block_def
        Let_def split: option.splits)
  from first no_chatId no_content show ?thesis by blast
qed

text \<open>
  The theorem at a \<open>ping\<close> frame, at an auth frame without token, at a syntax error, and at
  chat frames of \<open>A\<close> without \<open>chatId\<close> and without \<open>content\<close>.
\<close>

theorem bad_frames_witness:
  "get_prop (JObj [(''type'', JStr ''ping'')]) ''type'' = Returned (JStr ''ping'') \<and>
   on_message demo_ext demo_env demo_server 1 (Some (JObj [(''type'', JStr ''ping'')])) =
     (demo_server, []) \<and>
   get_prop (JObj [(''type'', JStr ''auth'')]) ''type'' = Returned (JStr ''auth'') \<and>
   get_member (JObj [(''type'', JStr ''auth'')]) ''token'' = Undefined \<and>
   on_message demo_ext demo_env demo_server 1 (Some (JObj [(''type'', JStr ''auth'')])) =
     (ws_close 1 demo_server, [Sent 1 (AuthStatus False), CloseCalled 1]) \<and>
   on_message demo_ext demo_env demo_server 1 None =
     (demo_server, [Logged, Sent 1 (ErrorFrame ''Invalid message format'')]) \<and>
   userId_of demo_server 1 = Some ''A'' \<and> getChat_ok demo_env \<and>
   get_member (JObj [(''type'', JStr ''chat_message''), (''content'', JStr ''hello'')]) ''chatId'' =
     Undefined \<and>
   on_message demo_ext demo_env demo_server 1
     (Some (JObj [(''type'', JStr ''chat_message''), (''content'', JStr ''hello'')])) =
     (demo_server, []) \<and>
   getChat demo_ext demo_env (db demo_server)
     (get_member (JObj [(''type'', JStr ''chat_message''), (''chatId'', JStr ''chat-1'')]) ''chatId'') =
     Returned (Some demo_chat) \<and>
   buyerId demo_chat = ''A'' \<and>
   get_member (JObj [(''type'', JStr ''chat_message''), (''chatId'', JStr ''chat-1'')]) ''content'' =
     Undefined \<and>
   on_message demo_ext demo_env demo_server 1
     (Some (JObj [(''type'', JStr ''chat_message''), (''chatId'', JStr ''chat-1'')])) =
     (demo_server, [Logged, Sent 1 (ErrorFrame ''Invalid message format'')])"
proof -
  let ?noId = "JObj [(''type'', JStr ''chat_message''), (''content'', JStr ''hello'')]"
  let ?noBody = "JObj [(''type'', JStr ''chat_message''), (''chatId'', JStr ''chat-1'')]"
  have ping: "get_prop (JObj [(''type'', JStr ''ping'')]) ''type'' = Returned (JStr ''ping'')"
    and neq: "JStr ''ping'' \<noteq> JStr ''auth''" "JStr ''ping'' \<noteq> JStr ''chat_message''"
    and bare: "get_prop (JObj [(''type'', JStr ''auth'')]) ''type'' = Returned (JStr ''auth'')"
      "get_member (JObj [(''type'', JStr ''auth'')]) ''token'' = Undefined"
    and noId: "get_prop ?noId ''type'' = Returned (JStr ''chat_message'')"
      "get_member ?noId ''chatId'' = Undefined"
    and noBody: "get_prop ?noBody ''type'' = Returned (JStr ''chat_message'')"
      "get_member ?noBody ''content'' = Undefined"
    and A: "''A'' \<noteq> []"
    by (simp_all add: get_member_def)
  have ok: "getChat_ok demo_env"
    by (simp add: demo_env_def)
  have found: "getChat demo_ext demo_env (db demo_server) (get_member ?noBody ''chatId'') =
      Returned (Some demo_chat)"
    by (simp add: get_member_def demo_getChat)
  have buyer: "buyerId demo_chat = ''A''"
    by (simp add: demo_chat_def)
  from bad_frames [of demo_ext demo_env demo_server 1 "JObj [(''type'', JStr ''ping'')]" "JStr ''ping''"]
    ping neq
  have 1: "on_message demo_ext demo_env demo_server 1 (Some (JObj [(''type'', JStr ''ping'')])) =
     (demo_server, [])"
    and 3: "on_message demo_ext demo_env demo_server 1 None =
     (demo_server, [Logged, Sent 1 (ErrorFrame ''Invalid message format'')])"
    by blast+
  from bad_frames [of demo_ext demo_env demo_server 1 "JObj [(''type'', JStr ''auth'')]"] bare
  have 2: "on_message demo_ext demo_env demo_server 1 (Some (JObj [(''type'', JStr ''auth'')])) =
     (ws_close 1 demo_server, [Sent 1 (AuthStatus False), CloseCalled 1])"
    by blast
  from bad_frames [where x = demo_ext and e = demo_env and s = demo_server and c = 1
      and msg = ?noId and u = "''A''"] noId demo_userId A ok
  have 4: "on_message demo_ext demo_env demo_server 1 (Some ?noId) = (demo_server, [])"
    by blast
  from bad_frames [where x = demo_ext and e = demo_env and s = demo_server and c = 1
      and msg = ?noBody and u = "''A''" and chat = demo_chat] noBody demo_userId A found buyer
  have 5: "on_message demo_ext demo_env demo_server 1 (Some ?noBody) =
     (demo_server, [Logged, Sent 1 (ErrorFrame ''Invalid message format'')])"
    by blast
  from 1 2 3 4 5 ping bare noId(2) noBody(2) demo_userId ok found buyer show ?thesis by blast
qed

subsection \<open>Closing an older connection of the same user\<close>

text \<open>
  Claim C9. The close handler deletes the registry entry filed under the connection's
  \<^verbatim>\<open>userId\<close> whatever that entry points at. When a user authenticates on connection
  \<open>c1\<close> and then on connection \<open>c2\<close>, the registry entry is that of \<open>c2\<close>; closing
  \<open>c1\<close> removes it, and the lookup of the user finds nothing although \<open>c2\<close> is open and
  bound to the user.
\<close>

theorem close_removes_newer_entry:
  assumes distinct: "c1 \<noteq> c2"
    and new: "sockets s c1 = None" "sockets s c2 = None"
    and tok1: "verifyRefreshToken x e1 (JStr t1) = Some p1" "payload_userId p1 = u"
    and tok2: "verifyRefreshToken x e2 (JStr t2) = Some p2" "payload_userId p2 = u"
    and u: "u \<noteq> []"
  shows "connections (fst (run x s
           [Connection c1, Frame c1 (Some (auth_frame t1)) e1,
            Connection c2, Frame c2 (Some (auth_frame t2)) e2])) u =
           Some \<lparr>conn_userId = u, ws = c2\<rparr> \<and>
         connections (fst (run x s
           [Connection c1, Frame c1 (Some (auth_frame t1)) e1,
            Connection c2, Frame c2 (Some (auth_frame t2)) e2, Close c1])) u = None \<and>
         readyState_of (fst (run x s
           [Connection c1, Frame c1 (Some (auth_frame t1)) e1,
            Connection c2, Frame c2 (Some (auth_frame t2)) e2, Close c1])) c2 = OPEN \<and>
         userId_of (fst (run x s
           [Connection c1, Frame c1 (Some (auth_frame t1)) e1,
            Connection c2, Frame c2 (Some (auth_frame t2)) e2, Close c1])) c2 = Some u \<and>
         (\<forall>s' k. sockets s' c1 = Some k \<and> userId k = Some u \<longrightarrow>
            connections (on_close s' c1) u = None)"
  using assms
  by (simp add: on_message_auth auth_frame_type auth_frame_token auth_branch_def socket_defs
      on_close_def on_connection_def Let_def)

text \<open>The theorem for \<open>A\<close> on connections 1 and 2.\<close>

theorem close_removes_newer_entry_witness:
  "(1::nat) \<noteq> 2 \<and> sockets (init_server demo_db) 1 = None \<and> sockets (init_server demo_db) 2 = None \<and>
   verifyRefreshToken demo_ext demo_env (JStr ''tokA'') =
     Some \<lparr>payload_userId = ''A'', payload_role = ''buyer''\<rparr> \<and>
   connections (fst (run demo_ext (init_server demo_db)
     [Connection 1, Frame 1 (Some (auth_frame ''tokA'')) demo_env,
      Connection 2, Frame 2 (Some (auth_frame ''tokA'')) demo_env])) ''A'' =
     Some \<lparr>conn_userId = ''A'', ws = 2\<rparr> \<and>
   connections (fst (run demo_ext (init_server demo_db)
     [Connection 1, Frame 1 (Some (auth_frame ''tokA'')) demo_env,
      Connection 2, Frame 2 (Some (auth_frame ''tokA'')) demo_env, Close 1])) ''A'' = None \<and>
   readyState_of (fst (run demo_ext (init_server demo_db)
     [Connection 1, Frame 1 (Some (auth_frame ''tokA'')) demo_env,
      Connection 2, Frame 2 (Some (auth_frame ''tokA'')) demo_env, Close 1])) 2 = OPEN"
proof -
  have distinct: "(1::nat) \<noteq> 2" by simp
  have new: "sockets (init_server demo_db) 1 = None" "sockets (init_server demo_db) 2 = None"
    by (simp_all add: init_server_def)
  have u: "payload_userId \<lparr>payload_userId = ''A'', payload_role = ''buyer''\<rparr> = ''A''"
    and ne: "''A'' \<noteq> []"
    by simp_all
  from close_removes_newer_entry
    [OF distinct new demo_verify_tokA [of demo_env] u demo_verify_tokA [of demo_env] u ne]
    distinct new demo_verify_tokA [of demo_env]
  show ?thesis by blast
qed

subsection \<open>Authentication does not read the database\<close>

text \<open>
  Claim C10. The outcome of an auth frame is decided by \<^verbatim>\<open>jwt.verify\<close> of the token
  against the refresh secret at the current clock and by nothing else: the frames sent, the
  registry and the connection's \<^verbatim>\<open>userId\<close> after the run are the same for every content
  \<open>d\<close> of the database, which the run leaves as it is. So two database states give the same
  outcome, and a token that verifies is accepted and bound whether or not \<open>auth_tokens\<close>
  holds it and whether or not \<open>users\<close> holds its user.
\<close>

theorem auth_ignores_database:
  assumes ty: "get_prop msg ''type'' = Returned (JStr ''auth'')"
    and tok: "get_member msg ''token'' = JStr t"
    and sock: "sockets s c = Some k"
  shows "snd (on_message x e (s\<lparr>db := d\<rparr>) c (Some msg)) =
           (case jwt_verify x t (JWT_REFRESH_SECRET x) (js_now e) of
              Returned payload \<Rightarrow> [Sent c (AuthStatus True)]
            | Thrown \<Rightarrow> [Sent c (AuthStatus False), CloseCalled c]) \<and>
         connections (fst (on_message x e (s\<lparr>db := d\<rparr>) c (Some msg))) =
           (case jwt_verify x t (JWT_REFRESH_SECRET x) (js_now e) of
              Returned payload \<Rightarrow>
                (connections s)(payload_userId payload \<mapsto>
                   \<lparr>conn_userId = payload_userId payload, ws = c\<rparr>)
            | Thrown \<Rightarrow> connections s) \<and>
         userId_of (fst (on_message x e (s\<lparr>db := d\<rparr>) c (Some msg))) c =
           (case jwt_verify x t (JWT_REFRESH_SECRET x) (js_now e) of
              Returned payload \<Rightarrow> Some (payload_userId payload)
            | Thrown \<Rightarrow> userId k) \<and>
         db (fst (on_message x e (s\<lparr>db := d\<rparr>) c (Some msg))) = d \<and>
         snd (on_message x e (s\<lparr>db := d\<rparr>) c (Some msg)) =
           snd (on_message x e (s\<lparr>db := d'\<rparr>) c (Some msg)) \<and>
         connections (fst (on_message x e (s\<lparr>db := d\<rparr>) c (Some msg))) =
           connections (fst (on_message x e (s\<lparr>db := d'\<rparr>) c (Some msg)))"
  using tok sock unfolding on_message_auth [OF ty]
  by (simp add: auth_branch_def verifyRefreshToken_def socket_defs Let_def split: result.splits)

text \<open>
  The theorem in \<open>revoked_db\<close>: \<open>tokA\<close> has no record and its user is deactivated,
  \<open>tokB\<close> has no record and its user does not exist; both are accepted.
\<close>

theorem auth_ignores_database_witness:
  "get_prop (auth_frame ''tokA'') ''type'' = Returned (JStr ''auth'') \<and>
   get_member (auth_frame ''tokA'') ''token'' = JStr ''tokA'' \<and>
   sockets fresh_server 1 = Some \<lparr>readyState = OPEN, userId = None\<rparr> \<and>
   authTokens revoked_db = [] \<and> map_option isActive (users revoked_db ''A'') = Some False \<and>
   snd (on_message demo_ext demo_env (fresh_server\<lparr>db := revoked_db\<rparr>) 1
     (Some (auth_frame ''tokA''))) = [Sent 1 (AuthStatus True)] \<and>
   connections (fst (on_message demo_ext demo_env (fresh_server\<lparr>db := revoked_db\<rparr>) 1
     (Some (auth_frame ''tokA'')))) ''A'' = Some \<lparr>conn_userId = ''A'', ws = 1\<rparr> \<and>
   users revoked_db ''B'' = None \<and>
   snd (on_message demo_ext demo_env (fresh_server\<lparr>db := revoked_db\<rparr>) 1
     (Some (auth_frame ''tokB''))) = [Sent 1 (AuthStatus True)]"
proof -
  have sock: "sockets fresh_server 1 = Some \<lparr>readyState = OPEN, userId = None\<rparr>"
    by (simp add: fresh_server_def)
  have empty: "authTokens revoked_db = []"
    "map_option isActive (users revoked_db ''A'') = Some False" "users revoked_db ''B'' = None"
    by (simp_all add: revoked_db_def)
  have jwtA: "jwt_verify demo_ext ''tokA'' (JWT_REFRESH_SECRET demo_ext) (js_now demo_env) =
      Returned \<lparr>payload_userId = ''A'', payload_role = ''buyer''\<rparr>"
    and jwtB: "jwt_verify demo_ext ''tokB'' (JWT_REFRESH_SECRET demo_ext) (js_now demo_env) =
      Returned \<lparr>payload_userId = ''B'', payload_role = ''seller''\<rparr>"
    by (simp_all add: demo_ext_def JWT_REFRESH_SECRET_def)
  from auth_ignores_database [OF auth_frame_type auth_frame_token [of "''tokA''"] sock,
      where x = demo_ext and e = demo_env and d = revoked_db] jwtA
  have A: "snd (on_message demo_ext demo_env (fresh_server\<lparr>db := revoked_db\<rparr>) 1
      (Some (auth_frame ''tokA''))) = [Sent 1 (AuthStatus True)] \<and>
    connections (fst (on_message demo_ext demo_env (fresh_server\<lparr>db := revoked_db\<rparr>) 1
      (Some (auth_frame ''tokA'')))) ''A'' = Some \<lparr>conn_userId = ''A'', ws = 1\<rparr>"
    by simp
  from auth_ignores_database [OF auth_frame_type auth_frame_token [of "''tokB''"] sock,
      where x = demo_ext and e = demo_env and d = revoked_db] jwtB
  have B: "snd (on_message demo_ext demo_env (fresh_server\<lparr>db := revoked_db\<rparr>) 1
      (Some (auth_frame ''tokB''))) = [Sent 1 (AuthStatus True)]"
    by simp
  from A B auth_frame_type [of "''tokA''"] auth_frame_token [of "''tokA''"] sock empty
  show ?thesis by blast
qed

end
